theory Spec2Isabelle
  imports Complex_Main
begin

section \<open>Client side: the growth engine of \<open>PlayerFish\<close>\<close>

text \<open>
  JavaScript numbers are modelled as exact rationals (\<open>rat\<close>); the integer-valued
  fields \<open>sizeLevel\<close> and \<open>fishNeededToGrow\<close> are \<open>int\<close>. A quotient whose
  divisor may be zero is a \<open>jsnum\<close>, which keeps JavaScript's non-finite results apart
  from the finite ones.
\<close>

datatype jsnum = Num rat | PosInfinity | NegInfinity | NaN

definition js_div :: "rat \<Rightarrow> rat \<Rightarrow> jsnum" where
  "js_div a b =
     (if b \<noteq> 0 then Num (a / b)
      else if 0 < a then PosInfinity
      else if a < 0 then NegInfinity
      else NaN)"

fun is_negative :: "jsnum \<Rightarrow> bool" where
  "is_negative (Num x) = (x < 0)"
| "is_negative NegInfinity = True"
| "is_negative PosInfinity = False"
| "is_negative NaN = False"

text \<open>The fields of \<open>this.growthAnimation\<close> that the growth logic reads or writes.\<close>

record growthAnimation =
  active :: bool
  timer :: int
  duration :: int
  targetRadius :: rat
  startRadius :: rat

text \<open>
  The fields of \<open>PlayerFish\<close> that the growth, boost and eating methods touch.
  \<open>gameInstanceScore\<close> is \<open>window.gameInstance.score\<close>, \<open>None\<close> while the
  singleton is not set.
\<close>

record PlayerFish =
  isCurrentPlayer :: bool
  sizeLevel :: int
  radius :: rat
  baseSpeed :: rat
  speed :: rat
  boosting :: bool
  boostDrainRate :: rat
  score :: rat
  isAlive :: bool
  fishEaten :: rat
  fishNeededToGrow :: int
  growthProgress :: jsnum
  growthAnimation :: growthAnimation
  gameInstanceScore :: "rat option"

text \<open>The state the constructor of \<open>PlayerFish\<close> builds.\<close>

definition newPlayerFish :: PlayerFish where
  "newPlayerFish =
     \<lparr> isCurrentPlayer = True, sizeLevel = 1, radius = 15, baseSpeed = 2, speed = 2,
       boosting = False, boostDrainRate = 1 / 1000, score = 0, isAlive = True,
       fishEaten = 0, fishNeededToGrow = 5, growthProgress = Num 0,
       growthAnimation =
         \<lparr> active = False, timer = 0, duration = 60, targetRadius = 15, startRadius = 15 \<rparr>,
       gameInstanceScore = None \<rparr>"

text \<open>\<open>startBoost\<close> and \<open>stopBoost\<close> (the particle burst is visual only).\<close>

definition startBoost :: "PlayerFish \<Rightarrow> PlayerFish" where
  "startBoost p = (if \<not> isAlive p then p else p\<lparr>boosting := True\<rparr>)"

definition stopBoost :: "PlayerFish \<Rightarrow> PlayerFish" where
  "stopBoost p = p\<lparr>boosting := False\<rparr>"

text \<open>
  \<open>shrink\<close>: refuses at level 1; otherwise the amount is computed from the level
  before the decrement, the radius is lowered at once, the animation is started from the
  previous radius, and \<open>fishNeededToGrow\<close> becomes \<open>Math.floor(fishNeededToGrow / 1.5)\<close>.
  The result carries the method's boolean return value.
\<close>

definition shrink :: "PlayerFish \<Rightarrow> bool \<times> PlayerFish" where
  "shrink p =
     (if sizeLevel p \<le> 1 then (False, p)
      else
        let shrinkAmount = of_int (5 + ((sizeLevel p - 1) div 2) * 2) :: rat;
            p1 = p\<lparr>sizeLevel := sizeLevel p - 1, radius := radius p - shrinkAmount\<rparr>;
            b = min (7 / 2) (baseSpeed p1 / (95 / 100));
            p2 = p1\<lparr>baseSpeed := b, speed := b\<rparr>;
            p3 = p2\<lparr>growthAnimation := (growthAnimation p2)
                     \<lparr>active := True, timer := 0,
                      startRadius := radius p2 + shrinkAmount,
                      targetRadius := radius p2\<rparr>\<rparr>
        in (True, p3\<lparr>fishNeededToGrow :=
                        \<lfloor>(of_int (fishNeededToGrow p3) :: rat) / (3 / 2)\<rfloor>\<rparr>))"

text \<open>
  \<open>grow(amount = 1)\<close>: the level is raised first, so the growth amount is computed from
  the new level. The radius itself is not assigned here: only the animation's target is,
  and \<open>updateGrowthAnimation\<close> moves the radius there.
\<close>

definition grow :: "int \<Rightarrow> PlayerFish \<Rightarrow> PlayerFish" where
  "grow amount p =
     (let p1 = p\<lparr>sizeLevel := sizeLevel p + amount, fishEaten := 0, growthProgress := Num 0,
                 fishNeededToGrow := \<lfloor>(of_int (fishNeededToGrow p) :: rat) * (3 / 2)\<rfloor>\<rparr>;
          b = max (3 / 2) (baseSpeed p1 * (95 / 100));
          p2 = p1\<lparr>baseSpeed := b, speed := b\<rparr>;
          growthAmount = of_int (amount * (5 + (sizeLevel p2 div 2) * 2)) :: rat
      in p2\<lparr>growthAnimation := (growthAnimation p2)
               \<lparr>active := True, timer := 0,
                startRadius := radius p2,
                targetRadius := radius p2 + growthAmount\<rparr>\<rparr>)"

text \<open>
  The last frame of \<open>updateGrowthAnimation\<close> (\<open>progress >= 1\<close>): the animation ends
  and the radius is set to the target exactly. The eased frames before it are
  floating-point interpolation and are not modelled.
\<close>

definition finishGrowthAnimation :: "PlayerFish \<Rightarrow> PlayerFish" where
  "finishGrowthAnimation p =
     p\<lparr>radius := targetRadius (growthAnimation p),
       growthAnimation := (growthAnimation p)\<lparr>active := False, timer := duration (growthAnimation p)\<rparr>\<rparr>"


text \<open>\<open>updateBoost\<close>, one call per frame.\<close>

definition updateBoost :: "PlayerFish \<Rightarrow> PlayerFish" where
  "updateBoost p =
     (if \<not> boosting p then p
      else
        let drainAmount = boostDrainRate p in
        if 0 < fishEaten p then
          let p1 = p\<lparr>fishEaten :=
                       max 0 (fishEaten p - drainAmount * of_int (fishNeededToGrow p))\<rparr>
          in p1\<lparr>growthProgress := js_div (fishEaten p1) (of_int (fishNeededToGrow p1))\<rparr>
        else if 1 < sizeLevel p then
          let p1 = snd (shrink p)
          in p1\<lparr>fishEaten := of_int (fishNeededToGrow p1) * (9 / 10),
                growthProgress := Num (9 / 10)\<rparr>
        else stopBoost p)"

text \<open>The edibility tests of \<open>PlayerFish\<close> and of \<open>AIPlayer\<close>, on the two radii.\<close>

definition canEat :: "rat \<Rightarrow> rat \<Rightarrow> bool" where
  "canEat thisRadius otherRadius = (otherRadius * (99 / 100) < thisRadius)"

definition AIPlayer_canEat :: "rat \<Rightarrow> rat \<Rightarrow> bool" where
  "AIPlayer_canEat thisRadius otherRadius = (otherRadius * (105 / 100) < thisRadius)"

subsection \<open>Radii derived from a size level\<close>

text \<open>
  The loop \<open>for (let i = 1; i < sizeLevel; i++) radius += 5 + Math.floor(i / 2) * 2\<close>,
  which the remote-player reconstruction, the enemy constructor and the AI constructor
  all contain.
\<close>

function radiusLoop :: "int \<Rightarrow> int \<Rightarrow> rat \<Rightarrow> rat" where
  "radiusLoop i level r =
     (if i < level then radiusLoop (i + 1) level (r + of_int (5 + (i div 2) * 2)) else r)"
  by pat_completeness auto
termination
  by (relation "measure (\<lambda>(i, level, r). nat (level - i))") auto

declare radiusLoop.simps [simp del]

text \<open>
  The remote player built by \<open>createRemotePlayer\<close>: the radius of the payload may be
  missing (\<open>None\<close>), the size level defaults to 1 when missing or zero.
\<close>

record remotePlayer =
  rp_radius :: "rat option"
  rp_sizeLevel :: int

definition calculateRadiusFromSizeLevel :: "remotePlayer \<Rightarrow> remotePlayer" where
  "calculateRadiusFromSizeLevel rp =
     (if (rp_radius rp = None \<or> rp_radius rp = Some 0) \<and> rp_sizeLevel rp \<noteq> 0
      then rp\<lparr>rp_radius := Some (radiusLoop 1 (rp_sizeLevel rp) 15)\<rparr>
      else rp)"

definition createRemotePlayer :: "rat option \<Rightarrow> int option \<Rightarrow> remotePlayer" where
  "createRemotePlayer payloadRadius payloadSizeLevel =
     calculateRadiusFromSizeLevel
       \<lparr> rp_radius = payloadRadius,
         rp_sizeLevel = (case payloadSizeLevel of None \<Rightarrow> 1
                         | Some l \<Rightarrow> if l = 0 then 1 else l) \<rparr>"

text \<open>
  \<open>EnemyFish.determineSizeRelativeToPlayer\<close>: \<open>sizeRoll\<close> is the value of
  \<open>Math.random()\<close>, \<open>rnd12\<close> and \<open>rnd34\<close> are what \<open>random(1, 2)\<close> and
  \<open>random(3, 4)\<close> return. The result is the pair of the enemy's size level and radius.
\<close>

definition determineSizeRelativeToPlayer :: "rat \<Rightarrow> int \<Rightarrow> int \<Rightarrow> int \<Rightarrow> int \<times> rat" where
  "determineSizeRelativeToPlayer sizeRoll rnd12 rnd34 playerSizeLevel =
     (let level = (if sizeRoll < 6 / 10 then max 1 (playerSizeLevel - rnd12)
                   else if sizeRoll < 9 / 10 then playerSizeLevel + rnd12
                   else playerSizeLevel + rnd34)
      in (level, radiusLoop 1 level 10))"

text \<open>The radius the constructor of \<open>AIPlayer\<close> computes for its size level.\<close>

definition AIPlayer_radius :: "int \<Rightarrow> rat" where
  "AIPlayer_radius level = radiusLoop 1 level 15"

section \<open>Server side: \<open>server.js\<close>\<close>

record food =
  food_id :: string
  food_x :: rat
  food_y :: rat
  food_radius :: rat
  food_value :: rat
  food_color :: string

text \<open>The entry of \<open>gameState.players\<close> that the \<open>playerJoin\<close> handler creates.\<close>

record playerSnapshot =
  ps_id :: string
  ps_name :: string
  ps_x :: rat
  ps_y :: rat
  ps_radius :: rat
  ps_color :: string
  ps_eyeColor :: string
  ps_pupilColor :: string
  ps_angle :: rat
  ps_score :: rat
  ps_sizeLevel :: rat
  ps_isAlive :: bool

text \<open>
  \<open>gameState\<close>: \<open>players\<close> is the object keyed by socket id, \<open>foods\<close> the array.
  (\<open>enemies\<close> stays the empty array throughout and is left out.)
\<close>

record gameState =
  players :: "string \<rightharpoonup> playerSnapshot"
  foods :: "food list"
  worldWidth :: rat
  worldHeight :: rat
  maxFoodItems :: nat
  connectedPlayers :: int

text \<open>What the server sends, and to whom.\<close>

datatype message =
    GameStateMsg gameState
  | PlayerJoined playerSnapshot
  | PlayerMoved playerSnapshot
  | FoodSpawned food
  | FoodRemoved string
  | PlayerDied string
  | PlayerRespawned playerSnapshot
  | PlayerLeft string

text \<open>
  \<open>SocketEmit\<close> is \<open>socket.emit\<close> (to the socket itself), \<open>BroadcastEmit\<close> is
  \<open>socket.broadcast.emit\<close> (to every socket but this one), \<open>IoEmit\<close> is \<open>io.emit\<close>
  (to every socket).
\<close>

datatype emission =
    SocketEmit string message
  | BroadcastEmit string message
  | IoEmit message

text \<open>The payloads of the client events, with the fields the handlers read.\<close>

record joinData =
  jd_name :: string
  jd_x :: rat
  jd_y :: rat
  jd_radius :: rat
  jd_color :: string
  jd_eyeColor :: string
  jd_pupilColor :: string
  jd_angle :: rat
  jd_worldWidth :: "rat option"
  jd_worldHeight :: "rat option"

record updateData =
  ud_x :: rat
  ud_y :: rat
  ud_radius :: rat
  ud_angle :: rat
  ud_score :: rat
  ud_sizeLevel :: rat
  ud_isAlive :: bool

record respawnData =
  rd_x :: rat
  rd_y :: rat
  rd_radius :: rat
  rd_score :: rat
  rd_sizeLevel :: rat

text \<open>
  The random choices of one call of \<open>generateFood\<close>: the id string built from the clock
  and \<open>Math.random()\<close>, and the three further values of \<open>Math.random()\<close>.
\<close>

record foodRandom =
  fr_id :: string
  fr_x :: rat
  fr_y :: rat
  fr_color :: rat

definition getRandomFoodColor :: "rat \<Rightarrow> string" where
  "getRandomFoodColor r =
     (let colors = [''#AAFFAA'', ''#AAAAFF'', ''#FFAAAA'', ''#FFFFAA'', ''#FFAAFF'', ''#AAFFFF'']
      in colors ! nat \<lfloor>r * of_nat (length colors)\<rfloor>)"

text \<open>\<open>generateFood\<close> returns the new food, or nothing (\<open>undefined\<close>) at the cap.\<close>

definition generateFood :: "foodRandom \<Rightarrow> gameState \<Rightarrow> food option \<times> gameState" where
  "generateFood r gs =
     (if maxFoodItems gs \<le> length (foods gs) then (None, gs)
      else
        let f = \<lparr> food_id = fr_id r,
                  food_x = fr_x r * worldWidth gs,
                  food_y = fr_y r * worldHeight gs,
                  food_radius = 5, food_value = 1,
                  food_color = getRandomFoodColor (fr_color r) \<rparr>
        in (Some f, gs\<lparr>foods := foods gs @ [f]\<rparr>))"

definition initialGameState :: gameState where
  "initialGameState =
     \<lparr> players = Map.empty, foods = [], worldWidth = 3840, worldHeight = 2160,
       maxFoodItems = 100, connectedPlayers = 0 \<rparr>"

text \<open>The seeding loop \<open>for (let i = 0; i < 50; i++) generateFood()\<close>.\<close>

definition seedFood :: "(nat \<Rightarrow> foodRandom) \<Rightarrow> gameState \<Rightarrow> gameState" where
  "seedFood rnds gs = fold (\<lambda>i g. snd (generateFood (rnds i) g)) [0..<50] gs"

subsection \<open>The spawn timer\<close>

text \<open>
  The server together with the part of the runtime it drives: \<open>timers\<close> are the
  intervals that are currently scheduled (handle and period in milliseconds),
  \<open>nextHandle\<close> the handle the next \<open>setInterval\<close> returns, \<open>foodSpawnInterval\<close> the
  module variable (\<open>None\<close> while undefined), \<open>sockets\<close> the connections whose handlers
  are registered.
\<close>

record server =
  gameState :: gameState
  foodSpawnInterval :: "nat option"
  timers :: "(nat \<times> nat) list"
  nextHandle :: nat
  sockets :: "string set"

definition clearInterval :: "nat \<Rightarrow> server \<Rightarrow> server" where
  "clearInterval h srv = srv\<lparr>timers := filter (\<lambda>t. fst t \<noteq> h) (timers srv)\<rparr>"

definition setInterval :: "nat \<Rightarrow> server \<Rightarrow> nat \<times> server" where
  "setInterval period srv =
     (nextHandle srv,
      srv\<lparr>timers := timers srv @ [(nextHandle srv, period)], nextHandle := Suc (nextHandle srv)\<rparr>)"

definition startFoodSpawning :: "server \<Rightarrow> server" where
  "startFoodSpawning srv =
     (let srv1 = (case foodSpawnInterval srv of None \<Rightarrow> srv | Some h \<Rightarrow> clearInterval h srv)
      in if connectedPlayers (gameState srv1) = 0 then srv1
         else
           let spawnRate = (if connectedPlayers (gameState srv1) = 1 then 2000 else 500);
               (h, srv2) = setInterval spawnRate srv1
           in srv2\<lparr>foodSpawnInterval := Some h\<rparr>)"

text \<open>The body of the interval's callback.\<close>

definition spawnTick :: "foodRandom \<Rightarrow> gameState \<Rightarrow> gameState \<times> emission list" where
  "spawnTick r gs =
     (case generateFood r gs of
        (Some newFood, gs1) \<Rightarrow>
          if 0 < connectedPlayers gs1 then (gs1, [IoEmit (FoodSpawned newFood)]) else (gs1, [])
      | (None, gs1) \<Rightarrow> (gs1, []))"

text \<open>The state after the module's top level has run: seeding, then \<open>startFoodSpawning()\<close>.\<close>

definition initialServer :: "(nat \<Rightarrow> foodRandom) \<Rightarrow> server" where
  "initialServer rnds =
     startFoodSpawning
       \<lparr> gameState = seedFood rnds initialGameState, foodSpawnInterval = None,
         timers = [], nextHandle = 0, sockets = {} \<rparr>"

subsection \<open>The socket handlers\<close>

definition connection :: "string \<Rightarrow> server \<Rightarrow> server \<times> emission list" where
  "connection sid srv =
     (let gs = gameState srv;
          srv1 = srv\<lparr>gameState := gs\<lparr>connectedPlayers := connectedPlayers gs + 1\<rparr>\<rparr>;
          srv2 = startFoodSpawning srv1
      in (srv2\<lparr>sockets := insert sid (sockets srv2)\<rparr>,
          [SocketEmit sid (GameStateMsg (gameState srv2))]))"

definition truthy :: "rat option \<Rightarrow> bool" where
  "truthy v = (case v of None \<Rightarrow> False | Some x \<Rightarrow> x \<noteq> 0)"

definition playerJoin :: "string \<Rightarrow> joinData \<Rightarrow> gameState \<Rightarrow> gameState \<times> emission list" where
  "playerJoin sid playerData gs =
     (let pl = \<lparr> ps_id = sid, ps_name = jd_name playerData, ps_x = jd_x playerData,
                 ps_y = jd_y playerData, ps_radius = jd_radius playerData,
                 ps_color = jd_color playerData, ps_eyeColor = jd_eyeColor playerData,
                 ps_pupilColor = jd_pupilColor playerData, ps_angle = jd_angle playerData,
                 ps_score = 0, ps_sizeLevel = 1, ps_isAlive = True \<rparr>;
          gs1 = gs\<lparr>players := (players gs)(sid \<mapsto> pl)\<rparr>;
          gs2 = (if truthy (jd_worldWidth playerData) \<and> truthy (jd_worldHeight playerData)
                 then gs1\<lparr>worldWidth := max (worldWidth gs1) (the (jd_worldWidth playerData)),
                          worldHeight := max (worldHeight gs1) (the (jd_worldHeight playerData))\<rparr>
                 else gs1)
      in if 1 < connectedPlayers gs2 then (gs2, [BroadcastEmit sid (PlayerJoined pl)])
         else (gs2, []))"

definition playerUpdate :: "string \<Rightarrow> updateData \<Rightarrow> gameState \<Rightarrow> gameState \<times> emission list" where
  "playerUpdate sid playerData gs =
     (case players gs sid of
        None \<Rightarrow> (gs, [])
      | Some player \<Rightarrow>
          let pl = player\<lparr>ps_x := ud_x playerData, ps_y := ud_y playerData,
                          ps_radius := ud_radius playerData, ps_angle := ud_angle playerData,
                          ps_score := ud_score playerData,
                          ps_sizeLevel := ud_sizeLevel playerData,
                          ps_isAlive := ud_isAlive playerData\<rparr>;
              gs1 = gs\<lparr>players := (players gs)(sid \<mapsto> pl)\<rparr>
          in if 1 < connectedPlayers gs1 then (gs1, [BroadcastEmit sid (PlayerMoved pl)])
             else (gs1, []))"

text \<open>\<open>findIndex\<close> (with \<open>None\<close> for \<open>-1\<close>) and \<open>splice(index, 1)\<close>.\<close>

fun findIndex :: "('a \<Rightarrow> bool) \<Rightarrow> 'a list \<Rightarrow> nat option" where
  "findIndex P [] = None"
| "findIndex P (x # xs) = (if P x then Some 0 else map_option Suc (findIndex P xs))"

definition splice1 :: "nat \<Rightarrow> 'a list \<Rightarrow> 'a list" where
  "splice1 i xs = take i xs @ drop (Suc i) xs"

definition foodEaten :: "string \<Rightarrow> gameState \<Rightarrow> gameState \<times> emission list" where
  "foodEaten foodId gs =
     (case findIndex (\<lambda>f. food_id f = foodId) (foods gs) of
        None \<Rightarrow> (gs, [])
      | Some foodIndex \<Rightarrow>
          (gs\<lparr>foods := splice1 foodIndex (foods gs)\<rparr>, [IoEmit (FoodRemoved foodId)]))"

text \<open>
  \<open>gameState.players\<close> is a plain object, so the lookup \<open>gameState.players[key]\<close>
  also finds the properties every object inherits from \<open>Object.prototype\<close>, and their
  values are truthy. The socket ids that key the lookups of the other handlers are issued
  by the server library and are never such names; the id that \<open>playerEaten\<close> looks up is
  sent by the client. There the assignment of \<open>isAlive\<close> lands on the inherited object,
  not in \<open>gameState\<close>, and \<open>playerDied\<close> is emitted all the same.
\<close>

definition inheritedKey :: "string \<Rightarrow> bool" where
  "inheritedKey k \<longleftrightarrow>
     k \<in> set [''constructor'', ''__proto__'', ''hasOwnProperty'', ''isPrototypeOf'',
              ''propertyIsEnumerable'', ''toLocaleString'', ''toString'', ''valueOf'',
              ''__defineGetter__'', ''__defineSetter__'', ''__lookupGetter__'',
              ''__lookupSetter__'']"

definition playerEaten :: "string \<Rightarrow> gameState \<Rightarrow> gameState \<times> emission list" where
  "playerEaten eatenPlayerId gs =
     (case players gs eatenPlayerId of
        None \<Rightarrow>
          if inheritedKey eatenPlayerId then (gs, [IoEmit (PlayerDied eatenPlayerId)])
          else (gs, [])
      | Some eatenPlayer \<Rightarrow>
          (gs\<lparr>players := (players gs)(eatenPlayerId \<mapsto> eatenPlayer\<lparr>ps_isAlive := False\<rparr>)\<rparr>,
           [IoEmit (PlayerDied eatenPlayerId)]))"

definition playerRespawn :: "string \<Rightarrow> respawnData \<Rightarrow> gameState \<Rightarrow> gameState \<times> emission list" where
  "playerRespawn sid playerData gs =
     (case players gs sid of
        None \<Rightarrow> (gs, [])
      | Some player \<Rightarrow>
          let pl = player\<lparr>ps_x := rd_x playerData, ps_y := rd_y playerData,
                          ps_radius := rd_radius playerData, ps_score := rd_score playerData,
                          ps_sizeLevel := rd_sizeLevel playerData, ps_isAlive := True\<rparr>;
              gs1 = gs\<lparr>players := (players gs)(sid \<mapsto> pl)\<rparr>
          in if 1 < connectedPlayers gs1 then (gs1, [IoEmit (PlayerRespawned pl)])
             else (gs1, []))"

definition disconnect :: "string \<Rightarrow> server \<Rightarrow> server \<times> emission list" where
  "disconnect sid srv =
     (let gs = gameState srv;
          srv1 = srv\<lparr>gameState := gs\<lparr>connectedPlayers := max 0 (connectedPlayers gs - 1)\<rparr>\<rparr>;
          srv2 = startFoodSpawning srv1;
          srv3 = srv2\<lparr>sockets := sockets srv2 - {sid}\<rparr>;
          gs2 = gameState srv3
      in case players gs2 sid of
           None \<Rightarrow> (srv3, [])
         | Some player \<Rightarrow>
             (srv3\<lparr>gameState := gs2\<lparr>players := (players gs2)(sid := None)\<rparr>\<rparr>,
              if 0 < connectedPlayers gs2 then [IoEmit (PlayerLeft sid)] else []))"

subsection \<open>Runs of the server\<close>

text \<open>
  One event of the single-threaded server: a socket connects, one of its handlers runs,
  it disconnects, or a scheduled interval fires. An event that the runtime cannot deliver
  (a handler of a socket that is not connected, a second connection of a live socket id,
  the callback of an interval that is not scheduled) gives \<open>None\<close>.
\<close>

datatype event =
    Connection string
  | PlayerJoin string joinData
  | PlayerUpdate string updateData
  | FoodEaten string string
  | PlayerEaten string string
  | PlayerRespawn string respawnData
  | Disconnect string
  | SpawnTick nat foodRandom

definition onGameState ::
  "(gameState \<Rightarrow> gameState \<times> emission list) \<Rightarrow> server \<Rightarrow> server \<times> emission list" where
  "onGameState h srv = (case h (gameState srv) of (gs, out) \<Rightarrow> (srv\<lparr>gameState := gs\<rparr>, out))"

fun step :: "event \<Rightarrow> server \<Rightarrow> (server \<times> emission list) option" where
  "step (Connection sid) srv =
     (if sid \<in> sockets srv then None else Some (connection sid srv))"
| "step (PlayerJoin sid d) srv =
     (if sid \<in> sockets srv then Some (onGameState (playerJoin sid d) srv) else None)"
| "step (PlayerUpdate sid d) srv =
     (if sid \<in> sockets srv then Some (onGameState (playerUpdate sid d) srv) else None)"
| "step (FoodEaten sid foodId) srv =
     (if sid \<in> sockets srv then Some (onGameState (foodEaten foodId) srv) else None)"
| "step (PlayerEaten sid eatenPlayerId) srv =
     (if sid \<in> sockets srv then Some (onGameState (playerEaten eatenPlayerId) srv) else None)"
| "step (PlayerRespawn sid d) srv =
     (if sid \<in> sockets srv then Some (onGameState (playerRespawn sid d) srv) else None)"
| "step (Disconnect sid) srv =
     (if sid \<in> sockets srv then Some (disconnect sid srv) else None)"
| "step (SpawnTick h r) srv =
     (if h \<in> fst ` set (timers srv) then Some (onGameState (spawnTick r) srv) else None)"

text \<open>A run: the events in order, with everything emitted on the way.\<close>

fun run :: "event list \<Rightarrow> server \<Rightarrow> (server \<times> emission list) option" where
  "run [] srv = Some (srv, [])"
| "run (e # es) srv =
     (case step e srv of
        None \<Rightarrow> None
      | Some (srv1, out1) \<Rightarrow>
          (case run es srv1 of
             None \<Rightarrow> None
           | Some (srv2, out2) \<Rightarrow> Some (srv2, out1 @ out2)))"

subsection \<open>Input events and frames of the boost\<close>

text \<open>
  The mouse and touch listeners call \<open>startBoost\<close> and \<open>stopBoost\<close>; every frame of
  \<open>update\<close> calls \<open>updateBoost\<close>. A boost run is any interleaving of the three.
\<close>

datatype boostInput = StartBoost | StopBoost | Frame

fun boostRun :: "boostInput list \<Rightarrow> PlayerFish \<Rightarrow> PlayerFish" where
  "boostRun [] p = p"
| "boostRun (StartBoost # as) p = boostRun as (startBoost p)"
| "boostRun (StopBoost # as) p = boostRun as (stopBoost p)"
| "boostRun (Frame # as) p = boostRun as (updateBoost p)"

subsection \<open>Invariants of the server\<close>

definition foodInv :: "server \<Rightarrow> bool" where
  "foodInv srv \<longleftrightarrow>
     maxFoodItems (gameState srv) = 100 \<and> length (foods (gameState srv)) \<le> 100"

definition timerInv :: "server \<Rightarrow> bool" where
  "timerInv srv \<longleftrightarrow>
     0 \<le> connectedPlayers (gameState srv)
     \<and> (\<forall>h. foodSpawnInterval srv = Some h \<longrightarrow> h < nextHandle srv)
     \<and> (if connectedPlayers (gameState srv) = 0 then timers srv = []
         else \<exists>h. foodSpawnInterval srv = Some h
                \<and> timers srv = [(h, if connectedPlayers (gameState srv) = 1 then 2000 else 500)])"


subsection \<open>Concrete inputs\<close>

text \<open>Random choices with pairwise different ids, and payloads as a client sends them.\<close>

definition sampleFoodRandom :: "nat \<Rightarrow> foodRandom" where
  "sampleFoodRandom i =
     \<lparr> fr_id = CHR ''f'' # replicate i (CHR ''x''), fr_x = 1 / 2, fr_y = 1 / 2, fr_color = 0 \<rparr>"

definition sampleJoinData :: joinData where
  "sampleJoinData =
     \<lparr> jd_name = ''Player'', jd_x = 100, jd_y = 100, jd_radius = 15, jd_color = ''#3399FF'',
       jd_eyeColor = ''white'', jd_pupilColor = ''black'', jd_angle = 0,
       jd_worldWidth = None, jd_worldHeight = None \<rparr>"

definition sampleUpdateData :: updateData where
  "sampleUpdateData =
     \<lparr> ud_x = 120, ud_y = 90, ud_radius = 15, ud_angle = 1, ud_score = 10, ud_sizeLevel = 1,
       ud_isAlive = True \<rparr>"

definition sampleRespawnData :: respawnData where
  "sampleRespawnData =
     \<lparr> rd_x = 300, rd_y = 300, rd_radius = 15, rd_score = 5, rd_sizeLevel = 1 \<rparr>"

text \<open>A game state with two foods and no player.\<close>

definition twoFoods :: gameState where
  "twoFoods =
     snd (generateFood (sampleFoodRandom 1)
       (snd (generateFood (sampleFoodRandom 0) initialGameState)))"

text \<open>A server with one connected, joined player, two foods and the 2000 ms interval.\<close>

definition loneServer :: server where
  "loneServer =
     \<lparr> gameState = fst (playerJoin ''a'' sampleJoinData (twoFoods\<lparr>connectedPlayers := 1\<rparr>)),
       foodSpawnInterval = Some 0, timers = [(0, 2000)], nextHandle = 1, sockets = {''a''} \<rparr>"

text \<open>
  The ids that the calls of \<open>generateFood\<close> in the interval's callback draw during a
  run (the seeding draws the ids of its 50 random choices).
\<close>

fun drawnIds :: "event list \<Rightarrow> string list" where
  "drawnIds [] = []"
| "drawnIds (SpawnTick h r # es) = fr_id r # drawnIds es"
| "drawnIds (e # es) = drawnIds es"

text \<open>
  The server after a seeding in which every draw gave the same id, with one socket
  connected.
\<close>

definition collidingServer :: server where
  "collidingServer = fst (connection ''a'' (initialServer (\<lambda>i. sampleFoodRandom 0)))"

section \<open>Properties of the growth engine\<close>

subsection \<open>Arithmetic of the two floor formulas\<close>

lemma floor_three_halves: "\<lfloor>(of_int f :: rat) * 3 / 2\<rfloor> = (3 * f) div 2"
proof -
  have "(of_int f :: rat) * 3 / 2 = of_int (3 * f) / of_int 2" by simp
  then show ?thesis by (simp only: floor_divide_of_int_eq)
qed

lemma floor_two_thirds: "\<lfloor>(of_int f :: rat) * 2 / 3\<rfloor> = (2 * f) div 3"
proof -
  have "(of_int f :: rat) * 2 / 3 = of_int (2 * f) / of_int 3" by simp
  then show ?thesis by (simp only: floor_divide_of_int_eq)
qed

lemma up_then_down: "(2 * ((3 * f) div 2)) div 3 = f - f mod (2::int)"
  by presburger

subsection \<open>What \<open>grow\<close> and \<open>shrink\<close> do to each field\<close>

lemma grow_fishNeededToGrow: "fishNeededToGrow (grow a p) = (3 * fishNeededToGrow p) div 2"
  by (simp add: grow_def Let_def floor_three_halves)

lemma grow_sizeLevel: "sizeLevel (grow a p) = sizeLevel p + a"
  by (simp add: grow_def Let_def)

lemma grow_radius: "radius (grow a p) = radius p"
  by (simp add: grow_def Let_def)

lemma grow_targetRadius:
  "targetRadius (growthAnimation (grow a p)) =
     radius p + of_int (a * (5 + ((sizeLevel p + a) div 2) * 2))"
  by (simp add: grow_def Let_def)

lemma finishGrowthAnimation_fields:
  "radius (finishGrowthAnimation p) = targetRadius (growthAnimation p)"
  "sizeLevel (finishGrowthAnimation p) = sizeLevel p"
  "fishNeededToGrow (finishGrowthAnimation p) = fishNeededToGrow p"
  by (simp_all add: finishGrowthAnimation_def)

lemma shrink_fishNeededToGrow:
  "1 < sizeLevel p \<Longrightarrow> fishNeededToGrow (snd (shrink p)) = (2 * fishNeededToGrow p) div 3"
  by (simp add: shrink_def Let_def floor_two_thirds)

lemma shrink_sizeLevel: "1 < sizeLevel p \<Longrightarrow> sizeLevel (snd (shrink p)) = sizeLevel p - 1"
  by (simp add: shrink_def Let_def)

lemma shrink_radius:
  "1 < sizeLevel p \<Longrightarrow>
     radius (snd (shrink p)) = radius p - of_int (5 + ((sizeLevel p - 1) div 2) * 2)"
  by (simp add: shrink_def Let_def)

lemma shrink_fst: "fst (shrink p) = (1 < sizeLevel p)"
  by (auto simp add: shrink_def Let_def)

lemma newPlayerFish_fields:
  "sizeLevel newPlayerFish = 1" "radius newPlayerFish = 15"
  "fishNeededToGrow newPlayerFish = 5" "fishEaten newPlayerFish = 0"
  by (simp_all add: newPlayerFish_def)

subsection \<open>Radius for a level\<close>

text \<open>
  C1. The claim: every component that derives a radius from a size level computes
  15 plus, for each level \<open>i\<close> from 2 to the level, \<open>5 + floor(i/2)*2\<close>, so 22 at level 2.
  The code at level 2: the local player's \<open>grow\<close> from the constructor's state targets
  22, and its radius is 22 once the growth animation has ended; the remote-player
  reconstruction of a payload without radius gives 20; the enemy constructor (player at
  level 1, the "larger fish" branch with \<open>random(1, 2) = 1\<close>) gives level 2 with radius
  15; the AI constructor gives 20. The loop of the three constructors adds the increment
  of \<open>i\<close> for \<open>i\<close> from 1 to level - 1, \<open>grow\<close> adds the increment of the level it enters,
  and the enemy starts from 10.
\<close>

theorem radius_at_level_two_differs:
  "sizeLevel (finishGrowthAnimation (grow 1 newPlayerFish)) = 2
   \<and> targetRadius (growthAnimation (grow 1 newPlayerFish)) = 22
   \<and> radius (finishGrowthAnimation (grow 1 newPlayerFish)) = 22
   \<and> createRemotePlayer None (Some 2) = \<lparr> rp_radius = Some 20, rp_sizeLevel = 2 \<rparr>
   \<and> determineSizeRelativeToPlayer (7 / 10) 1 3 1 = (2, 15)
   \<and> AIPlayer_radius 2 = 20"
  by (simp add: finishGrowthAnimation_fields grow_sizeLevel grow_targetRadius
      newPlayerFish_fields createRemotePlayer_def calculateRadiusFromSizeLevel_def
      determineSizeRelativeToPlayer_def AIPlayer_radius_def radiusLoop.simps)

subsection \<open>Level-up followed by shrink\<close>

text \<open>
  C2, as amended. For a player at level \<open>L \<ge> 1\<close>, \<open>grow\<close> followed at once by
  \<open>shrink\<close> succeeds and returns the player to level \<open>L\<close>; \<open>fishNeededToGrow\<close> becomes
  \<open>floor(floor(f * 1.5) / 1.5)\<close>, which is \<open>f\<close> when \<open>f\<close> is even and \<open>f - 1\<close> when \<open>f\<close>
  is odd. Nothing is stated about the radius.
\<close>

theorem grow_then_shrink:
  "1 \<le> sizeLevel p \<Longrightarrow>
     fst (shrink (grow 1 p))
     \<and> sizeLevel (snd (shrink (grow 1 p))) = sizeLevel p
     \<and> fishNeededToGrow (snd (shrink (grow 1 p))) = fishNeededToGrow p - fishNeededToGrow p mod 2"
  by (simp add: shrink_fst shrink_sizeLevel shrink_fishNeededToGrow grow_sizeLevel
      grow_fishNeededToGrow up_then_down)

theorem grow_then_shrink_witness:
  "1 \<le> sizeLevel newPlayerFish
   \<and> fst (shrink (grow 1 newPlayerFish))
   \<and> sizeLevel (snd (shrink (grow 1 newPlayerFish))) = 1
   \<and> fishNeededToGrow (snd (shrink (grow 1 newPlayerFish))) = 4"
  using grow_then_shrink [of newPlayerFish] by (simp add: newPlayerFish_fields)

text \<open>
  The claim as stated fails at the constructor's state (level 1, radius 15,
  \<open>fishNeededToGrow\<close> 5): after \<open>grow\<close> and \<open>shrink\<close> the level is 1 again, but
  \<open>fishNeededToGrow\<close> is 4 and the radius is 10.
\<close>

theorem grow_then_shrink_not_restoring:
  "sizeLevel newPlayerFish = 1 \<and> radius newPlayerFish = 15 \<and> fishNeededToGrow newPlayerFish = 5
   \<and> sizeLevel (snd (shrink (grow 1 newPlayerFish))) = 1
   \<and> fishNeededToGrow (snd (shrink (grow 1 newPlayerFish))) = 4
   \<and> radius (snd (shrink (grow 1 newPlayerFish))) = 10"
  by (simp add: shrink_sizeLevel shrink_fishNeededToGrow shrink_radius grow_radius
      grow_sizeLevel grow_fishNeededToGrow newPlayerFish_fields)

subsection \<open>The floor of the boost\<close>

lemma floor_step:
  assumes "sizeLevel p = 1 \<and> fishEaten p = 0 \<and> growthProgress p = Num 0"
  shows "sizeLevel (updateBoost p) = 1 \<and> fishEaten (updateBoost p) = 0
         \<and> growthProgress (updateBoost p) = Num 0"
    and "sizeLevel (startBoost p) = 1 \<and> fishEaten (startBoost p) = 0
         \<and> growthProgress (startBoost p) = Num 0"
    and "sizeLevel (stopBoost p) = 1 \<and> fishEaten (stopBoost p) = 0
         \<and> growthProgress (stopBoost p) = Num 0"
    and "\<not> boosting (updateBoost p)"
  using assms by (simp_all add: updateBoost_def startBoost_def stopBoost_def)

lemma floor_run:
  "sizeLevel p = 1 \<and> fishEaten p = 0 \<and> growthProgress p = Num 0 \<Longrightarrow>
   sizeLevel (boostRun as p) = 1 \<and> fishEaten (boostRun as p) = 0
   \<and> growthProgress (boostRun as p) = Num 0"
proof (induction as p rule: boostRun.induct)
  case (1 p)
  then show ?case by simp
next
  case (2 as p)
  from floor_step(2) [OF "2.prems"] show ?case using "2.IH" by simp
next
  case (3 as p)
  from floor_step(3) [OF "3.prems"] show ?case using "3.IH" by simp
next
  case (4 as p)
  from floor_step(1) [OF "4.prems"] show ?case using "4.IH" by simp
qed

lemma is_negative_js_div: "0 \<le> a \<Longrightarrow> 0 \<le> b \<Longrightarrow> \<not> is_negative (js_div a b)"
  by (simp add: js_div_def not_less)

lemma drain_step:
  assumes "1 \<le> sizeLevel p \<and> 0 \<le> fishEaten p \<and> 0 \<le> fishNeededToGrow p
           \<and> \<not> is_negative (growthProgress p)"
  shows "1 \<le> sizeLevel (updateBoost p) \<and> 0 \<le> fishEaten (updateBoost p)
       \<and> 0 \<le> fishNeededToGrow (updateBoost p) \<and> \<not> is_negative (growthProgress (updateBoost p))"
proof -
  consider (idle) "\<not> boosting p"
    | (drain) "boosting p" "0 < fishEaten p"
    | (down) "boosting p" "\<not> 0 < fishEaten p" "1 < sizeLevel p"
    | (stop) "boosting p" "\<not> 0 < fishEaten p" "\<not> 1 < sizeLevel p"
    by blast
  then show ?thesis
  proof cases
    case idle
    with assms show ?thesis by (simp add: updateBoost_def)
  next
    case drain
    with assms show ?thesis by (simp add: updateBoost_def Let_def is_negative_js_div)
  next
    case down
    from assms have "0 \<le> fishNeededToGrow p" by simp
    then have "0 \<le> (2 * fishNeededToGrow p) div 3" by presburger
    with down assms show ?thesis
      by (simp add: updateBoost_def Let_def shrink_sizeLevel shrink_fishNeededToGrow)
  next
    case stop
    with assms show ?thesis by (simp add: updateBoost_def stopBoost_def)
  qed
qed

lemma drain_run:
  "1 \<le> sizeLevel p \<and> 0 \<le> fishEaten p \<and> 0 \<le> fishNeededToGrow p
   \<and> \<not> is_negative (growthProgress p) \<Longrightarrow>
   1 \<le> sizeLevel (boostRun as p) \<and> 0 \<le> fishEaten (boostRun as p)
   \<and> 0 \<le> fishNeededToGrow (boostRun as p) \<and> \<not> is_negative (growthProgress (boostRun as p))"
proof (induction as p rule: boostRun.induct)
  case (1 p)
  then show ?case by simp
next
  case (2 as p)
  then show ?case by (simp add: startBoost_def)
next
  case (3 as p)
  then show ?case by (simp add: stopBoost_def)
next
  case (4 as p)
  from drain_step [OF "4.prems"] show ?case using "4.IH" by simp
qed

text \<open>
  C6. For a player at level 1 with no progress (\<open>fishEaten\<close> and \<open>growthProgress\<close> both
  0), any run of boost starts, boost stops and frames leaves the level at 1 and the
  progress at 0, and a frame at that floor leaves boosting off. More generally, from any
  state with level at least 1, non-negative \<open>fishEaten\<close>, \<open>fishNeededToGrow\<close> and
  progress, every such run keeps the level at least 1 and \<open>fishEaten\<close> and the progress
  non-negative.
\<close>

theorem boost_floor:
  "(sizeLevel p = 1 \<and> fishEaten p = 0 \<and> growthProgress p = Num 0 \<longrightarrow>
      sizeLevel (boostRun as p) = 1 \<and> fishEaten (boostRun as p) = 0
      \<and> growthProgress (boostRun as p) = Num 0 \<and> \<not> boosting (updateBoost (boostRun as p)))
   \<and> (1 \<le> sizeLevel p \<and> 0 \<le> fishEaten p \<and> 0 \<le> fishNeededToGrow p
        \<and> \<not> is_negative (growthProgress p) \<longrightarrow>
      1 \<le> sizeLevel (boostRun as p) \<and> 0 \<le> fishEaten (boostRun as p)
      \<and> \<not> is_negative (growthProgress (boostRun as p)))"
  using floor_run [of p as] floor_step(4) [of "boostRun as p"] drain_run [of p as] by blast

theorem boost_floor_witness:
  "sizeLevel newPlayerFish = 1 \<and> fishEaten newPlayerFish = 0 \<and> growthProgress newPlayerFish = Num 0
   \<and> 0 \<le> fishNeededToGrow newPlayerFish
   \<and> sizeLevel (boostRun [StartBoost, Frame, Frame, StartBoost, Frame] newPlayerFish) = 1
   \<and> fishEaten (boostRun [StartBoost, Frame, Frame, StartBoost, Frame] newPlayerFish) = 0
   \<and> \<not> boosting (updateBoost (boostRun [StartBoost, Frame, Frame, StartBoost, Frame] newPlayerFish))
   \<and> \<not> is_negative
         (growthProgress (boostRun [StartBoost, Frame, Frame, StartBoost, Frame] newPlayerFish))"
  using boost_floor [of newPlayerFish "[StartBoost, Frame, Frame, StartBoost, Frame]"]
  by (simp add: newPlayerFish_def)

subsection \<open>Eating\<close>




subsection \<open>Edibility\<close>

text \<open>
  C8. The AI test holds iff this radius exceeds the other radius times 1.05, the local
  player's test iff it exceeds the other radius times 0.99; with radii 30 and 29 the AI
  test fails (30 is not above 30.45) and the player's test holds.
\<close>

theorem canEat_thresholds:
  "AIPlayer_canEat a b = (a > b * (105 / 100))
   \<and> canEat a b = (a > b * (99 / 100))
   \<and> \<not> AIPlayer_canEat 30 29 \<and> canEat 30 29"
  by (simp add: AIPlayer_canEat_def canEat_def)

theorem canEat_thresholds_witness:
  "AIPlayer_canEat 31 29 \<and> \<not> AIPlayer_canEat 30 29 \<and> canEat 30 29 \<and> \<not> canEat 28 29"
  using canEat_thresholds [of 31 29] canEat_thresholds [of 28 29]
  by (simp add: AIPlayer_canEat_def canEat_def)

section \<open>Properties of the server\<close>

subsection \<open>\<open>findIndex\<close> and \<open>splice\<close>\<close>

lemma findIndex_None: "findIndex P xs = None \<longleftrightarrow> (\<forall>x\<in>set xs. \<not> P x)"
  by (induction xs) auto

lemma findIndex_Some:
  "findIndex P xs = Some i \<Longrightarrow> i < length xs \<and> P (xs ! i) \<and> (\<forall>j<i. \<not> P (xs ! j))"
proof (induction xs arbitrary: i)
  case Nil
  then show ?case by simp
next
  case (Cons x xs)
  show ?case
  proof (cases "P x")
    case True
    with Cons.prems show ?thesis by simp
  next
    case False
    with Cons.prems obtain k where k: "findIndex P xs = Some k" "i = Suc k" by auto
    from Cons.IH [OF k(1)] False k(2) show ?thesis
      by (auto simp: less_Suc_eq_0_disj)
  qed
qed

lemma length_splice1: "i < length xs \<Longrightarrow> length (splice1 i xs) = length xs - 1"
  by (simp add: splice1_def)

lemma splice1_removes_key:
  assumes "distinct (map f xs)" and "i < length xs"
  shows "f (xs ! i) \<notin> f ` set (splice1 i xs)"
proof -
  have "xs = take i xs @ xs ! i # drop (Suc i) xs"
    using assms(2) by (simp add: id_take_nth_drop)
  then have "distinct (map f (take i xs @ xs ! i # drop (Suc i) xs))"
    using assms(1) by simp
  then show ?thesis by (auto simp: splice1_def)
qed

subsection \<open>Food generation and seeding\<close>

lemma generateFood_full:
  "maxFoodItems gs \<le> length (foods gs) \<Longrightarrow> generateFood r gs = (None, gs)"
  by (simp add: generateFood_def)

lemma generateFood_fields:
  "connectedPlayers (snd (generateFood r gs)) = connectedPlayers gs"
  "maxFoodItems (snd (generateFood r gs)) = maxFoodItems gs"
  "players (snd (generateFood r gs)) = players gs"
  "worldWidth (snd (generateFood r gs)) = worldWidth gs"
  "worldHeight (snd (generateFood r gs)) = worldHeight gs"
  by (simp_all add: generateFood_def Let_def)

lemma generateFood_length:
  "length (foods (snd (generateFood r gs))) =
     (if maxFoodItems gs \<le> length (foods gs) then length (foods gs)
      else Suc (length (foods gs)))"
  by (simp add: generateFood_def Let_def)

lemma fold_generateFood:
  "connectedPlayers (fold (\<lambda>i g. snd (generateFood (rnds i) g)) is gs) = connectedPlayers gs
   \<and> maxFoodItems (fold (\<lambda>i g. snd (generateFood (rnds i) g)) is gs) = maxFoodItems gs
   \<and> players (fold (\<lambda>i g. snd (generateFood (rnds i) g)) is gs) = players gs
   \<and> worldWidth (fold (\<lambda>i g. snd (generateFood (rnds i) g)) is gs) = worldWidth gs
   \<and> worldHeight (fold (\<lambda>i g. snd (generateFood (rnds i) g)) is gs) = worldHeight gs
   \<and> length (foods (fold (\<lambda>i g. snd (generateFood (rnds i) g)) is gs)) =
       min (max (maxFoodItems gs) (length (foods gs))) (length (foods gs) + length is)"
proof (induction "is" arbitrary: gs)
  case Nil
  then show ?case by simp
next
  case (Cons i "is")
  show ?case
    by (simp add: Cons.IH generateFood_fields generateFood_length)
qed

lemma seedFood_fields:
  "connectedPlayers (seedFood rnds initialGameState) = 0"
  "maxFoodItems (seedFood rnds initialGameState) = 100"
  "players (seedFood rnds initialGameState) = Map.empty"
  "worldWidth (seedFood rnds initialGameState) = 3840"
  "worldHeight (seedFood rnds initialGameState) = 2160"
  "length (foods (seedFood rnds initialGameState)) = 50"
  using fold_generateFood [of rnds "[0..<50]" initialGameState]
  by (simp_all add: seedFood_def initialGameState_def)

lemma initialServer_eq:
  "initialServer rnds =
     \<lparr> gameState = seedFood rnds initialGameState, foodSpawnInterval = None,
       timers = [], nextHandle = 0, sockets = {} \<rparr>"
  by (simp add: initialServer_def startFoodSpawning_def seedFood_fields)

subsection \<open>What each handler does to the fields\<close>

lemma spawnTick_fields:
  "connectedPlayers (fst (spawnTick r gs)) = connectedPlayers gs"
  "maxFoodItems (fst (spawnTick r gs)) = maxFoodItems gs"
  "players (fst (spawnTick r gs)) = players gs"
  "length (foods (fst (spawnTick r gs))) =
     (if maxFoodItems gs \<le> length (foods gs) then length (foods gs)
      else Suc (length (foods gs)))"
  by (simp_all add: spawnTick_def generateFood_def Let_def)

lemma playerJoin_fields:
  "connectedPlayers (fst (playerJoin sid d gs)) = connectedPlayers gs"
  "maxFoodItems (fst (playerJoin sid d gs)) = maxFoodItems gs"
  "dom (players (fst (playerJoin sid d gs))) = insert sid (dom (players gs))"
  "foods (fst (playerJoin sid d gs)) = foods gs"
  by (simp_all add: playerJoin_def Let_def)

lemma playerUpdate_fields:
  "connectedPlayers (fst (playerUpdate sid d gs)) = connectedPlayers gs"
  "maxFoodItems (fst (playerUpdate sid d gs)) = maxFoodItems gs"
  "dom (players (fst (playerUpdate sid d gs))) = dom (players gs)"
  "foods (fst (playerUpdate sid d gs)) = foods gs"
  by (auto simp add: playerUpdate_def Let_def split: option.splits)

lemma playerRespawn_fields:
  "connectedPlayers (fst (playerRespawn sid d gs)) = connectedPlayers gs"
  "maxFoodItems (fst (playerRespawn sid d gs)) = maxFoodItems gs"
  "dom (players (fst (playerRespawn sid d gs))) = dom (players gs)"
  "foods (fst (playerRespawn sid d gs)) = foods gs"
  by (auto simp add: playerRespawn_def Let_def split: option.splits)

lemma playerEaten_fields:
  "connectedPlayers (fst (playerEaten pid gs)) = connectedPlayers gs"
  "maxFoodItems (fst (playerEaten pid gs)) = maxFoodItems gs"
  "dom (players (fst (playerEaten pid gs))) = dom (players gs)"
  "foods (fst (playerEaten pid gs)) = foods gs"
  by (auto simp add: playerEaten_def Let_def split: option.splits)

lemma foodEaten_fields:
  "connectedPlayers (fst (foodEaten fid gs)) = connectedPlayers gs"
  "maxFoodItems (fst (foodEaten fid gs)) = maxFoodItems gs"
  "players (fst (foodEaten fid gs)) = players gs"
  "length (foods (fst (foodEaten fid gs))) \<le> length (foods gs)"
  by (auto simp add: foodEaten_def length_splice1 dest: findIndex_Some split: option.splits)

lemma onGameState_fields:
  "gameState (fst (onGameState h srv)) = fst (h (gameState srv))"
  "timers (fst (onGameState h srv)) = timers srv"
  "foodSpawnInterval (fst (onGameState h srv)) = foodSpawnInterval srv"
  "nextHandle (fst (onGameState h srv)) = nextHandle srv"
  "sockets (fst (onGameState h srv)) = sockets srv"
  "snd (onGameState h srv) = snd (h (gameState srv))"
  by (simp_all add: onGameState_def split: prod.splits)

lemma startFoodSpawning_fields:
  "gameState (startFoodSpawning srv) = gameState srv"
  "sockets (startFoodSpawning srv) = sockets srv"
  by (simp_all add: startFoodSpawning_def clearInterval_def setInterval_def Let_def
      split: option.splits)

lemma connection_fields:
  "gameState (fst (connection sid srv)) =
     (gameState srv)\<lparr>connectedPlayers := connectedPlayers (gameState srv) + 1\<rparr>"
  "sockets (fst (connection sid srv)) = insert sid (sockets srv)"
  by (simp_all add: connection_def Let_def startFoodSpawning_fields)

lemma disconnect_fields:
  "connectedPlayers (gameState (fst (disconnect sid srv))) =
     max 0 (connectedPlayers (gameState srv) - 1)"
  "maxFoodItems (gameState (fst (disconnect sid srv))) = maxFoodItems (gameState srv)"
  "foods (gameState (fst (disconnect sid srv))) = foods (gameState srv)"
  "dom (players (gameState (fst (disconnect sid srv)))) = dom (players (gameState srv)) - {sid}"
  "sockets (fst (disconnect sid srv)) = sockets srv - {sid}"
  by (auto simp add: disconnect_def Let_def startFoodSpawning_fields split: option.splits)

lemma step_cases:
  assumes "step e s = Some (s', out)"
  shows "(case e of
            Connection sid \<Rightarrow> sid \<notin> sockets s \<and> s' = fst (connection sid s)
          | PlayerJoin sid d \<Rightarrow> sid \<in> sockets s \<and> s' = fst (onGameState (playerJoin sid d) s)
          | PlayerUpdate sid d \<Rightarrow> sid \<in> sockets s \<and> s' = fst (onGameState (playerUpdate sid d) s)
          | FoodEaten sid fid \<Rightarrow> sid \<in> sockets s \<and> s' = fst (onGameState (foodEaten fid) s)
          | PlayerEaten sid pid \<Rightarrow> sid \<in> sockets s \<and> s' = fst (onGameState (playerEaten pid) s)
          | PlayerRespawn sid d \<Rightarrow> sid \<in> sockets s \<and> s' = fst (onGameState (playerRespawn sid d) s)
          | Disconnect sid \<Rightarrow> sid \<in> sockets s \<and> s' = fst (disconnect sid s)
          | SpawnTick h r \<Rightarrow> s' = fst (onGameState (spawnTick r) s))"
  using assms by (cases e) (auto split: if_splits)

subsection \<open>Invariants along a run\<close>

lemma run_invariant:
  assumes "I srv"
    and "\<And>e s s' out. I s \<Longrightarrow> step e s = Some (s', out) \<Longrightarrow> I s'"
    and "run es srv = Some (srv', out)"
  shows "I srv'"
  using assms(1,3)
proof (induction es arbitrary: srv out)
  case Nil
  then show ?case by simp
next
  case (Cons e es)
  from Cons.prems(2) obtain s1 o1 o2 where
    s: "step e srv = Some (s1, o1)" and r: "run es s1 = Some (srv', o2)"
    by (auto split: option.splits prod.splits)
  from assms(2) [OF Cons.prems(1) s] have "I s1" .
  from Cons.IH [OF this r] show ?case .
qed

lemmas run_eval = initialServer_eq seedFood_fields connection_def disconnect_def
  startFoodSpawning_def setInterval_def clearInterval_def onGameState_def playerJoin_def
  spawnTick_def generateFood_def truthy_def Let_def sampleJoinData_def

subsection \<open>Consuming a food twice\<close>

lemma foodEaten_head:
  assumes "foods gs = f # fs" and "food_id f = foodId"
  shows "foodEaten foodId gs = (gs\<lparr>foods := fs\<rparr>, [IoEmit (FoodRemoved foodId)])"
  using assms by (simp add: foodEaten_def splice1_def)

lemma foodEaten_foods:
  "foods (fst (foodEaten fid gs)) =
     (case findIndex (\<lambda>f. food_id f = fid) (foods gs) of
        None \<Rightarrow> foods gs | Some i \<Rightarrow> splice1 i (foods gs))"
  by (simp add: foodEaten_def split: option.splits)

lemma spawnTick_food_ids:
  "map food_id (foods (fst (spawnTick r gs))) =
     (if maxFoodItems gs \<le> length (foods gs) then map food_id (foods gs)
      else map food_id (foods gs) @ [fr_id r])"
  by (simp add: spawnTick_def generateFood_def Let_def)

lemma map_splice1: "map f (splice1 i xs) = splice1 i (map f xs)"
  by (simp add: splice1_def take_map drop_map)

lemma distinct_splice1_append:
  assumes "distinct (xs @ ys)"
  shows "distinct (splice1 i xs @ ys)"
proof -
  from assms have d: "distinct xs" and dy: "distinct ys" and disj: "set xs \<inter> set ys = {}"
    by auto
  have "set (take i xs) \<inter> set (drop (Suc i) xs) = {}"
    using d by (intro set_take_disj_set_drop_if_distinct) simp_all
  moreover have "set (take i xs) \<subseteq> set xs" "set (drop (Suc i) xs) \<subseteq> set xs"
    by (simp_all add: set_take_subset set_drop_subset)
  ultimately show ?thesis
    using d dy disj by (auto simp: splice1_def)
qed

lemma fold_generateFood_ids:
  "length (foods gs) + length is \<le> maxFoodItems gs \<Longrightarrow>
   map food_id (foods (fold (\<lambda>i g. snd (generateFood (rnds i) g)) is gs)) =
     map food_id (foods gs) @ map (\<lambda>i. fr_id (rnds i)) is"
proof (induction "is" arbitrary: gs)
  case Nil
  then show ?case by simp
next
  case (Cons i "is")
  from Cons.prems have below: "\<not> maxFoodItems gs \<le> length (foods gs)" by simp
  have next_ok: "length (foods (snd (generateFood (rnds i) gs))) + length is
      \<le> maxFoodItems (snd (generateFood (rnds i) gs))"
    using Cons.prems below by (simp add: generateFood_fields generateFood_length)
  have "map food_id (foods (snd (generateFood (rnds i) gs))) =
      map food_id (foods gs) @ [fr_id (rnds i)]"
    using below by (simp add: generateFood_def Let_def)
  with Cons.IH [OF next_ok] show ?case by simp
qed

lemma seedFood_ids:
  "map food_id (foods (seedFood rnds initialGameState)) = map (\<lambda>i. fr_id (rnds i)) [0..<50]"
  using fold_generateFood_ids [of initialGameState "[0..<50]" rnds]
  by (simp add: seedFood_def initialGameState_def)

lemma step_food_ids:
  assumes "step e s = Some (s', out)"
    and "distinct (map food_id (foods (gameState s)) @ drawnIds (e # es))"
  shows "distinct (map food_id (foods (gameState s')) @ drawnIds es)"
proof (cases e)
  case (FoodEaten sid fid)
  with step_cases [OF assms(1)] have s': "s' = fst (onGameState (foodEaten fid) s)" by simp
  from assms(2) FoodEaten
  have d: "distinct (map food_id (foods (gameState s)) @ drawnIds es)" by simp
  show ?thesis
  proof (cases "findIndex (\<lambda>f. food_id f = fid) (foods (gameState s))")
    case None
    with d show ?thesis by (simp add: s' onGameState_fields foodEaten_foods)
  next
    case (Some i)
    with distinct_splice1_append [OF d, of i] show ?thesis
      by (simp add: s' onGameState_fields foodEaten_foods map_splice1)
  qed
next
  case (SpawnTick h r)
  with step_cases [OF assms(1)] have s': "s' = fst (onGameState (spawnTick r) s)" by simp
  from assms(2) SpawnTick show ?thesis
    by (simp add: s' onGameState_fields spawnTick_food_ids)
qed (use assms(2) step_cases [OF assms(1)] in \<open>simp_all add: connection_fields
   disconnect_fields onGameState_fields playerJoin_fields playerUpdate_fields
   playerEaten_fields playerRespawn_fields\<close>)

lemma run_food_ids:
  "run es srv = Some (srv', out) \<Longrightarrow>
   distinct (map food_id (foods (gameState srv)) @ drawnIds es) \<Longrightarrow>
   distinct (map food_id (foods (gameState srv')))"
proof (induction es arbitrary: srv out)
  case Nil
  then show ?case by simp
next
  case (Cons e es)
  from Cons.prems(1) obtain s1 o1 o2 where
    s: "step e srv = Some (s1, o1)" and r: "run es s1 = Some (srv', o2)"
    by (auto split: option.splits prod.splits)
  from step_food_ids [OF s Cons.prems(2)] Cons.IH [OF r] show ?case by simp
qed

lemma sampleFoodRandom_ids: "distinct (map (\<lambda>i. fr_id (sampleFoodRandom i)) [0..<n])"
proof -
  have "inj_on (\<lambda>i. fr_id (sampleFoodRandom i)) (set [0..<n])"
  proof (rule inj_onI)
    fix i j
    assume "fr_id (sampleFoodRandom i) = fr_id (sampleFoodRandom j)"
    then have "length (replicate i (CHR ''x'')) = length (replicate j (CHR ''x''))"
      by (simp add: sampleFoodRandom_def)
    then show "i = j" by simp
  qed
  then show ?thesis by (simp add: distinct_map)
qed

text \<open>
  C3, as amended. A \<open>foodEaten\<close> report with an id that no food carries changes nothing
  and emits nothing; with an id that some food carries it removes one food and emits
  \<open>foodRemoved\<close> to all sockets. When the ids of the foods are pairwise different, two
  reports with the id of a present food behave as the claim says: the first removes the
  food and notifies, after it no food carries the id, the second changes nothing and
  emits nothing, and the collection is shorter by exactly one. The ids are pairwise
  different in every state the server reaches provided the ids that \<open>generateFood\<close> drew
  (in the seeding and in the interval's callbacks) are pairwise different; the server
  itself does not check that.
\<close>

theorem foodEaten_twice:
  "(foodId \<notin> food_id ` set (foods gs) \<longrightarrow> foodEaten foodId gs = (gs, []))
   \<and> (foodId \<in> food_id ` set (foods gs) \<longrightarrow>
        snd (foodEaten foodId gs) = [IoEmit (FoodRemoved foodId)]
        \<and> length (foods (fst (foodEaten foodId gs))) + 1 = length (foods gs))
   \<and> (foodId \<in> food_id ` set (foods gs) \<and> distinct (map food_id (foods gs)) \<longrightarrow>
        foodId \<notin> food_id ` set (foods (fst (foodEaten foodId gs)))
        \<and> foodEaten foodId (fst (foodEaten foodId gs)) = (fst (foodEaten foodId gs), [])
        \<and> length (foods (fst (foodEaten foodId (fst (foodEaten foodId gs))))) + 1
            = length (foods gs))
   \<and> (run es (initialServer rnds) = Some (srv, out)
        \<and> distinct (map (\<lambda>i. fr_id (rnds i)) [0..<50] @ drawnIds es) \<longrightarrow>
        distinct (map food_id (foods (gameState srv))))"
proof -
  have absent: "foodEaten foodId gs = (gs, [])" if "foodId \<notin> food_id ` set (foods gs)"
  proof -
    from that have "findIndex (\<lambda>f. food_id f = foodId) (foods gs) = None"
      by (auto simp: findIndex_None)
    then show ?thesis by (simp add: foodEaten_def)
  qed
  have present: "\<exists>i. i < length (foods gs) \<and> food_id (foods gs ! i) = foodId
      \<and> foodEaten foodId gs =
          (gs\<lparr>foods := splice1 i (foods gs)\<rparr>, [IoEmit (FoodRemoved foodId)])"
    if "foodId \<in> food_id ` set (foods gs)"
  proof -
    from that have "findIndex (\<lambda>f. food_id f = foodId) (foods gs) \<noteq> None"
      by (auto simp: findIndex_None)
    then obtain i where i: "findIndex (\<lambda>f. food_id f = foodId) (foods gs) = Some i" by auto
    from findIndex_Some [OF i] i show ?thesis by (auto simp: foodEaten_def)
  qed
  have once: "snd (foodEaten foodId gs) = [IoEmit (FoodRemoved foodId)]
        \<and> length (foods (fst (foodEaten foodId gs))) + 1 = length (foods gs)"
    if "foodId \<in> food_id ` set (foods gs)"
    using present [OF that] by (auto simp: length_splice1)
  have twice: "foodId \<notin> food_id ` set (foods (fst (foodEaten foodId gs)))
        \<and> foodEaten foodId (fst (foodEaten foodId gs)) = (fst (foodEaten foodId gs), [])
        \<and> length (foods (fst (foodEaten foodId (fst (foodEaten foodId gs))))) + 1
            = length (foods gs)"
    if p: "foodId \<in> food_id ` set (foods gs)" and d: "distinct (map food_id (foods gs))"
  proof -
    from present [OF p] obtain i where il: "i < length (foods gs)"
      and ii: "food_id (foods gs ! i) = foodId"
      and first: "foodEaten foodId gs =
          (gs\<lparr>foods := splice1 i (foods gs)\<rparr>, [IoEmit (FoodRemoved foodId)])"
      by blast
    from splice1_removes_key [OF d il] ii
    have gone: "foodId \<notin> food_id ` set (splice1 i (foods gs))" by simp
    then have "findIndex (\<lambda>f. food_id f = foodId) (splice1 i (foods gs)) = None"
      by (auto simp: findIndex_None)
    then have second: "foodEaten foodId (gs\<lparr>foods := splice1 i (foods gs)\<rparr>) =
        (gs\<lparr>foods := splice1 i (foods gs)\<rparr>, [])"
      by (simp add: foodEaten_def)
    from il have "length (splice1 i (foods gs)) + 1 = length (foods gs)"
      by (simp add: length_splice1)
    with first second gone show ?thesis by simp
  qed
  have reach: "distinct (map food_id (foods (gameState srv)))"
    if r: "run es (initialServer rnds) = Some (srv, out)"
      and d: "distinct (map (\<lambda>i. fr_id (rnds i)) [0..<50] @ drawnIds es)"
  proof -
    from d have "distinct (map food_id (foods (gameState (initialServer rnds))) @ drawnIds es)"
      by (simp add: initialServer_eq seedFood_ids)
    from run_food_ids [OF r this] show ?thesis .
  qed
  from absent once twice reach show ?thesis by blast
qed

theorem foodEaten_twice_witness:
  "''f'' \<in> food_id ` set (foods twoFoods) \<and> distinct (map food_id (foods twoFoods))
   \<and> length (foods twoFoods) = 2
   \<and> snd (foodEaten ''f'' twoFoods) = [IoEmit (FoodRemoved ''f'')]
   \<and> length (foods (fst (foodEaten ''f'' twoFoods))) = 1
   \<and> snd (foodEaten ''f'' (fst (foodEaten ''f'' twoFoods))) = []
   \<and> length (foods (fst (foodEaten ''f'' (fst (foodEaten ''f'' twoFoods))))) = 1
   \<and> ''g'' \<notin> food_id ` set (foods twoFoods) \<and> foodEaten ''g'' twoFoods = (twoFoods, [])
   \<and> run [Connection ''a'', SpawnTick 0 (sampleFoodRandom 50)] (initialServer sampleFoodRandom)
       \<noteq> None
   \<and> distinct (map (\<lambda>i. fr_id (sampleFoodRandom i)) [0..<50]
        @ drawnIds [Connection ''a'', SpawnTick 0 (sampleFoodRandom 50)])
   \<and> distinct (map food_id (foods (gameState (fst (the
        (run [Connection ''a'', SpawnTick 0 (sampleFoodRandom 50)]
           (initialServer sampleFoodRandom)))))))"
proof -
  let ?es = "[Connection ''a'', SpawnTick 0 (sampleFoodRandom 50)]"
  let ?S = "fst (the (run ?es (initialServer sampleFoodRandom)))"
  let ?O = "snd (the (run ?es (initialServer sampleFoodRandom)))"
  have r: "run ?es (initialServer sampleFoodRandom) = Some (?S, ?O)"
    by (simp add: run_eval)
  then have ne: "run ?es (initialServer sampleFoodRandom) \<noteq> None"
    by (metis option.distinct(1))
  have e: "drawnIds ?es = [fr_id (sampleFoodRandom 50)]" by simp
  have "distinct (map (\<lambda>i. fr_id (sampleFoodRandom i)) ([0..<50] @ [50]))"
    using sampleFoodRandom_ids [of "Suc 50"] by (simp only: upt_Suc_append [OF le0])
  then have d: "distinct (map (\<lambda>i. fr_id (sampleFoodRandom i)) [0..<50] @ drawnIds ?es)"
    by (simp only: e map_append list.map)
  have two: "''f'' \<in> food_id ` set (foods twoFoods)" "distinct (map food_id (foods twoFoods))"
    "''g'' \<notin> food_id ` set (foods twoFoods)" "length (foods twoFoods) = 2"
    by (simp_all add: twoFoods_def generateFood_def initialGameState_def sampleFoodRandom_def
        Let_def)
  note at_f = foodEaten_twice [of "''f''" twoFoods ?es sampleFoodRandom ?S ?O]
  note at_g = foodEaten_twice [of "''g''" twoFoods ?es sampleFoodRandom ?S ?O]
  from at_f two(1,2)
  have A: "snd (foodEaten ''f'' twoFoods) = [IoEmit (FoodRemoved ''f'')]"
    "length (foods (fst (foodEaten ''f'' twoFoods))) + 1 = length (foods twoFoods)"
    "foodEaten ''f'' (fst (foodEaten ''f'' twoFoods)) = (fst (foodEaten ''f'' twoFoods), [])"
    "length (foods (fst (foodEaten ''f'' (fst (foodEaten ''f'' twoFoods))))) + 1
       = length (foods twoFoods)"
    by blast+
  from A(2) two(4) have A2: "length (foods (fst (foodEaten ''f'' twoFoods))) = 1" by simp
  from A(3) have A3: "snd (foodEaten ''f'' (fst (foodEaten ''f'' twoFoods))) = []" by simp
  from A(4) two(4)
  have A4: "length (foods (fst (foodEaten ''f'' (fst (foodEaten ''f'' twoFoods))))) = 1"
    by simp
  from at_f r d have B: "distinct (map food_id (foods (gameState ?S)))" by blast
  from at_g two(3) have C: "foodEaten ''g'' twoFoods = (twoFoods, [])" by blast
  from two A(1) A2 A3 A4 B C ne d show ?thesis by blast
qed

text \<open>
  The claim as stated fails when two foods carry the same id. After a seeding whose
  draws all gave the id \<open>f\<close> and one connection, there are 50 foods; the first report of
  \<open>f\<close> removes one and notifies, and the second report removes another and notifies
  again: 48 foods are left.
\<close>

theorem colliding_ids_removed_twice:
  "run [Connection ''a''] (initialServer (\<lambda>i. sampleFoodRandom 0)) \<noteq> None
   \<and> fst (the (run [Connection ''a''] (initialServer (\<lambda>i. sampleFoodRandom 0))))
       = collidingServer
   \<and> length (foods (gameState collidingServer)) = 50
   \<and> snd (the (step (FoodEaten ''a'' ''f'') collidingServer)) = [IoEmit (FoodRemoved ''f'')]
   \<and> length (foods (gameState (fst (the (step (FoodEaten ''a'' ''f'') collidingServer))))) = 49
   \<and> snd (the (step (FoodEaten ''a'' ''f'')
        (fst (the (step (FoodEaten ''a'' ''f'') collidingServer)))))
       = [IoEmit (FoodRemoved ''f'')]
   \<and> length (foods (gameState (fst (the (step (FoodEaten ''a'' ''f'')
        (fst (the (step (FoodEaten ''a'' ''f'') collidingServer)))))))) = 48"
proof -
  let ?gs = "gameState collidingServer"
  have sock: "sockets collidingServer = {''a''}"
    by (simp add: collidingServer_def connection_fields initialServer_eq)
  have len: "length (foods ?gs) = 50"
    by (simp add: collidingServer_def connection_fields initialServer_eq seedFood_fields)
  have "map food_id (foods ?gs) = map (\<lambda>i. fr_id (sampleFoodRandom 0)) [0..<50]"
    by (simp add: collidingServer_def connection_fields initialServer_eq seedFood_ids)
  then have "set (map food_id (foods ?gs)) \<subseteq> {''f''}"
    by (auto simp: sampleFoodRandom_def)
  then have ids: "\<forall>f\<in>set (foods ?gs). food_id f = ''f''"
    by auto
  from len obtain f1 f2 fs where fs: "foods ?gs = f1 # f2 # fs" and lfs: "length fs = 48"
    by (cases "foods ?gs"; cases "tl (foods ?gs)") auto
  from ids fs have i1: "food_id f1 = ''f''" and i2: "food_id f2 = ''f''" by auto
  have e1: "foodEaten ''f'' ?gs = (?gs\<lparr>foods := f2 # fs\<rparr>, [IoEmit (FoodRemoved ''f'')])"
    by (rule foodEaten_head [OF fs i1])
  have e2: "foodEaten ''f'' (?gs\<lparr>foods := f2 # fs\<rparr>) =
      (?gs\<lparr>foods := f2 # fs, foods := fs\<rparr>, [IoEmit (FoodRemoved ''f'')])"
    by (rule foodEaten_head [of _ f2 fs]) (simp_all add: i2)
  have r: "run [Connection ''a''] (initialServer (\<lambda>i. sampleFoodRandom 0)) \<noteq> None
      \<and> fst (the (run [Connection ''a''] (initialServer (\<lambda>i. sampleFoodRandom 0))))
          = collidingServer"
    by (simp add: collidingServer_def initialServer_eq)
  from r len sock e1 e2 lfs show ?thesis
    by (simp add: onGameState_def)
qed

subsection \<open>The cap on the foods\<close>

lemma step_foodInv:
  assumes "foodInv s" and "step e s = Some (s', out)"
  shows "foodInv s'"
proof (cases e)
  case (FoodEaten sid fid)
  with step_cases [OF assms(2)] have s': "s' = fst (onGameState (foodEaten fid) s)" by simp
  from foodEaten_fields(4) [of fid "gameState s"] assms(1) show ?thesis
    by (simp add: s' foodInv_def onGameState_fields foodEaten_fields(2))
qed (use assms(1) step_cases [OF assms(2)] in \<open>auto simp: foodInv_def connection_fields
   disconnect_fields onGameState_fields playerJoin_fields playerUpdate_fields
   playerEaten_fields playerRespawn_fields spawnTick_fields\<close>)

lemma step_foods_shorter:
  assumes "step e s = Some (s', out)"
    and "length (foods (gameState s')) < length (foods (gameState s))"
  shows "\<exists>sid fid. e = FoodEaten sid fid"
proof (cases e)
  case (FoodEaten sid fid)
  then show ?thesis by simp
qed (use assms(2) step_cases [OF assms(1)] in \<open>auto simp: connection_fields disconnect_fields
   onGameState_fields playerJoin_fields playerUpdate_fields playerEaten_fields
   playerRespawn_fields spawnTick_fields split: if_splits\<close>)

text \<open>
  C10. The seeding leaves 50 foods. In every state the server reaches, \<open>maxFoodItems\<close>
  is 100 and there are at most 100 foods; \<open>generateFood\<close> at the cap returns nothing and
  leaves the state as it is; and the only event after which there are fewer foods than
  before is a \<open>foodEaten\<close> report.
\<close>

theorem foods_capped:
  assumes "run es (initialServer rnds) = Some (srv, out)"
  shows "length (foods (gameState (initialServer rnds))) = 50
       \<and> maxFoodItems (gameState srv) = 100
       \<and> length (foods (gameState srv)) \<le> 100
       \<and> (maxFoodItems (gameState srv) \<le> length (foods (gameState srv)) \<longrightarrow>
            generateFood r (gameState srv) = (None, gameState srv))
       \<and> (\<forall>e srv' out'. step e srv = Some (srv', out')
             \<and> length (foods (gameState srv')) < length (foods (gameState srv))
             \<longrightarrow> (\<exists>sid fid. e = FoodEaten sid fid))"
proof -
  have "foodInv (initialServer rnds)"
    by (simp add: foodInv_def initialServer_eq seedFood_fields)
  from run_invariant [of foodInv, OF this _ assms] step_foodInv have "foodInv srv" by blast
  then show ?thesis
    using step_foods_shorter [of _ srv]
    by (auto simp: foodInv_def initialServer_eq seedFood_fields generateFood_full)
qed

theorem foods_capped_witness:
  "run [Connection ''a'', SpawnTick 0 (sampleFoodRandom 50)] (initialServer sampleFoodRandom)
     \<noteq> None
   \<and> length (foods (gameState (fst (the
        (run [Connection ''a'', SpawnTick 0 (sampleFoodRandom 50)]
           (initialServer sampleFoodRandom)))))) = 51
   \<and> maxFoodItems (gameState (fst (the
        (run [Connection ''a'', SpawnTick 0 (sampleFoodRandom 50)]
           (initialServer sampleFoodRandom))))) = 100"
proof -
  have r: "run [Connection ''a'', SpawnTick 0 (sampleFoodRandom 50)]
             (initialServer sampleFoodRandom) =
    Some (fst (the (run [Connection ''a'', SpawnTick 0 (sampleFoodRandom 50)]
                      (initialServer sampleFoodRandom))),
          snd (the (run [Connection ''a'', SpawnTick 0 (sampleFoodRandom 50)]
                      (initialServer sampleFoodRandom))))"
    by (simp add: run_eval)
  show ?thesis
    using foods_capped [OF r] by (simp add: run_eval)
qed

subsection \<open>The spawn timer\<close>

lemma startFoodSpawning_timers:
  assumes "\<forall>t\<in>set (timers srv). foodSpawnInterval srv = Some (fst t)"
  shows "timers (startFoodSpawning srv) =
           (if connectedPlayers (gameState srv) = 0 then []
            else [(nextHandle srv, if connectedPlayers (gameState srv) = 1 then 2000 else 500)])"
    and "connectedPlayers (gameState srv) \<noteq> 0 \<Longrightarrow>
           foodSpawnInterval (startFoodSpawning srv) = Some (nextHandle srv)
           \<and> nextHandle (startFoodSpawning srv) = Suc (nextHandle srv)"
    and "connectedPlayers (gameState srv) = 0 \<Longrightarrow>
           foodSpawnInterval (startFoodSpawning srv) = foodSpawnInterval srv
           \<and> nextHandle (startFoodSpawning srv) = nextHandle srv"
proof -
  have clear: "\<And>h. foodSpawnInterval srv = Some h \<Longrightarrow>
      filter (\<lambda>t. fst t \<noteq> h) (timers srv) = []"
    using assms by (auto simp: filter_empty_conv)
  have none: "foodSpawnInterval srv = None \<Longrightarrow> timers srv = []"
    using assms by (cases "timers srv") auto
  show "timers (startFoodSpawning srv) =
           (if connectedPlayers (gameState srv) = 0 then []
            else [(nextHandle srv, if connectedPlayers (gameState srv) = 1 then 2000 else 500)])"
    by (cases "foodSpawnInterval srv")
       (simp_all add: startFoodSpawning_def clearInterval_def setInterval_def Let_def clear none)
  show "connectedPlayers (gameState srv) \<noteq> 0 \<Longrightarrow>
           foodSpawnInterval (startFoodSpawning srv) = Some (nextHandle srv)
           \<and> nextHandle (startFoodSpawning srv) = Suc (nextHandle srv)"
    by (cases "foodSpawnInterval srv")
       (simp_all add: startFoodSpawning_def clearInterval_def setInterval_def Let_def)
  show "connectedPlayers (gameState srv) = 0 \<Longrightarrow>
           foodSpawnInterval (startFoodSpawning srv) = foodSpawnInterval srv
           \<and> nextHandle (startFoodSpawning srv) = nextHandle srv"
    by (cases "foodSpawnInterval srv")
       (simp_all add: startFoodSpawning_def clearInterval_def setInterval_def Let_def)
qed

lemma timerInv_held:
  "timerInv srv \<Longrightarrow> \<forall>t\<in>set (timers srv). foodSpawnInterval srv = Some (fst t)"
  by (auto simp: timerInv_def split: if_splits)

lemma timerInv_startFoodSpawning:
  assumes "\<forall>t\<in>set (timers srv). foodSpawnInterval srv = Some (fst t)"
    and "\<forall>h. foodSpawnInterval srv = Some h \<longrightarrow> h < nextHandle srv"
    and "0 \<le> connectedPlayers (gameState srv)"
  shows "timerInv (startFoodSpawning srv)"
proof (cases "connectedPlayers (gameState srv) = 0")
  case True
  with startFoodSpawning_timers(1,3) [OF assms(1)] assms(2) show ?thesis
    by (simp add: timerInv_def startFoodSpawning_fields)
next
  case False
  with startFoodSpawning_timers(1,2) [OF assms(1)] assms(3) show ?thesis
    by (simp add: timerInv_def startFoodSpawning_fields)
qed

lemma connection_timers:
  assumes "timerInv srv"
  shows "timerInv (fst (connection sid srv))"
    and "timers (fst (connection sid srv)) =
           (if connectedPlayers (gameState (fst (connection sid srv))) = 0 then []
            else if connectedPlayers (gameState (fst (connection sid srv))) = 1
                 then [(nextHandle srv, 2000)] else [(nextHandle srv, 500)])"
proof -
  let ?s1 = "srv\<lparr>gameState :=
    (gameState srv)\<lparr>connectedPlayers := connectedPlayers (gameState srv) + 1\<rparr>\<rparr>"
  have held: "\<forall>t\<in>set (timers ?s1). foodSpawnInterval ?s1 = Some (fst t)"
    using timerInv_held [OF assms] by simp
  have fresh: "\<forall>h. foodSpawnInterval ?s1 = Some h \<longrightarrow> h < nextHandle ?s1"
    using assms by (simp add: timerInv_def)
  have nn: "0 \<le> connectedPlayers (gameState ?s1)"
    using assms by (simp add: timerInv_def)
  have "timerInv (startFoodSpawning ?s1)"
    by (rule timerInv_startFoodSpawning [OF held fresh nn])
  then show "timerInv (fst (connection sid srv))"
    by (simp add: connection_def Let_def timerInv_def)
  show "timers (fst (connection sid srv)) =
           (if connectedPlayers (gameState (fst (connection sid srv))) = 0 then []
            else if connectedPlayers (gameState (fst (connection sid srv))) = 1
                 then [(nextHandle srv, 2000)] else [(nextHandle srv, 500)])"
    using startFoodSpawning_timers(1) [OF held]
    by (simp add: connection_def Let_def startFoodSpawning_fields)
qed

lemma disconnect_timers:
  assumes "timerInv srv"
  shows "timerInv (fst (disconnect sid srv))"
    and "timers (fst (disconnect sid srv)) =
           (if connectedPlayers (gameState (fst (disconnect sid srv))) = 0 then []
            else if connectedPlayers (gameState (fst (disconnect sid srv))) = 1
                 then [(nextHandle srv, 2000)] else [(nextHandle srv, 500)])"
proof -
  let ?s1 = "srv\<lparr>gameState :=
    (gameState srv)\<lparr>connectedPlayers := max 0 (connectedPlayers (gameState srv) - 1)\<rparr>\<rparr>"
  have held: "\<forall>t\<in>set (timers ?s1). foodSpawnInterval ?s1 = Some (fst t)"
    using timerInv_held [OF assms] by simp
  have fresh: "\<forall>h. foodSpawnInterval ?s1 = Some h \<longrightarrow> h < nextHandle ?s1"
    using assms by (simp add: timerInv_def)
  have nn: "0 \<le> connectedPlayers (gameState ?s1)"
    by simp
  have "timerInv (startFoodSpawning ?s1)"
    by (rule timerInv_startFoodSpawning [OF held fresh nn])
  then show "timerInv (fst (disconnect sid srv))"
    by (auto simp add: disconnect_def Let_def timerInv_def startFoodSpawning_fields
        split: option.splits)
  show "timers (fst (disconnect sid srv)) =
           (if connectedPlayers (gameState (fst (disconnect sid srv))) = 0 then []
            else if connectedPlayers (gameState (fst (disconnect sid srv))) = 1
                 then [(nextHandle srv, 2000)] else [(nextHandle srv, 500)])"
    using startFoodSpawning_timers(1) [OF held]
    by (auto simp add: disconnect_def Let_def startFoodSpawning_fields split: option.splits)
qed

lemma onGameState_timerInv:
  assumes "timerInv srv"
    and "connectedPlayers (fst (h (gameState srv))) = connectedPlayers (gameState srv)"
  shows "timerInv (fst (onGameState h srv))"
  using assms by (simp add: timerInv_def onGameState_fields)

lemma step_timerInv:
  assumes "timerInv s" and "step e s = Some (s', out)"
  shows "timerInv s'"
proof (cases e)
  case (Connection sid)
  with step_cases [OF assms(2)] connection_timers(1) [OF assms(1)] show ?thesis by simp
next
  case (PlayerJoin sid d)
  with step_cases [OF assms(2)] onGameState_timerInv [OF assms(1)] show ?thesis
    by (simp add: playerJoin_fields)
next
  case (PlayerUpdate sid d)
  with step_cases [OF assms(2)] onGameState_timerInv [OF assms(1)] show ?thesis
    by (simp add: playerUpdate_fields)
next
  case (FoodEaten sid fid)
  with step_cases [OF assms(2)] onGameState_timerInv [OF assms(1)] show ?thesis
    by (simp add: foodEaten_fields)
next
  case (PlayerEaten sid pid)
  with step_cases [OF assms(2)] onGameState_timerInv [OF assms(1)] show ?thesis
    by (simp add: playerEaten_fields)
next
  case (PlayerRespawn sid d)
  with step_cases [OF assms(2)] onGameState_timerInv [OF assms(1)] show ?thesis
    by (simp add: playerRespawn_fields)
next
  case (Disconnect sid)
  with step_cases [OF assms(2)] disconnect_timers(1) [OF assms(1)] show ?thesis by simp
next
  case (SpawnTick h r)
  with step_cases [OF assms(2)] onGameState_timerInv [OF assms(1)] show ?thesis
    by (simp add: spawnTick_fields)
qed

lemma timerInv_initialServer: "timerInv (initialServer rnds)"
  by (simp add: timerInv_def initialServer_eq seedFood_fields)

text \<open>
  C4. In every state the server reaches, \<open>connectedPlayers\<close> is not negative and the
  scheduled intervals are determined by it: none when it is 0, exactly one of 2000 ms
  when it is 1, exactly one of 500 ms when it is 2 or more, and that one is the interval
  \<open>foodSpawnInterval\<close> holds. After every connection and every disconnection the
  scheduled interval (if any) has the handle that \<open>setInterval\<close> issued in that very
  event, a handle no interval scheduled before had: the previous interval is gone and the
  one for the new count is in place at once.
\<close>

theorem spawn_timer_policy:
  assumes "run es (initialServer rnds) = Some (srv, out)"
  shows "0 \<le> connectedPlayers (gameState srv)
       \<and> timers srv =
           (if connectedPlayers (gameState srv) = 0 then []
            else if connectedPlayers (gameState srv) = 1
                 then [(the (foodSpawnInterval srv), 2000)]
            else [(the (foodSpawnInterval srv), 500)])
       \<and> (\<forall>sid srv' out'.
             step (Connection sid) srv = Some (srv', out')
               \<or> step (Disconnect sid) srv = Some (srv', out')
             \<longrightarrow> nextHandle srv \<notin> fst ` set (timers srv)
                 \<and> timers srv' =
                     (if connectedPlayers (gameState srv') = 0 then []
                      else if connectedPlayers (gameState srv') = 1
                           then [(nextHandle srv, 2000)]
                      else [(nextHandle srv, 500)]))"
proof -
  have inv: "timerInv srv"
    using run_invariant [of timerInv, OF timerInv_initialServer _ assms] step_timerInv
    by blast
  have a: "0 \<le> connectedPlayers (gameState srv)"
    using inv by (simp add: timerInv_def)
  have b: "timers srv =
           (if connectedPlayers (gameState srv) = 0 then []
            else if connectedPlayers (gameState srv) = 1
                 then [(the (foodSpawnInterval srv), 2000)]
            else [(the (foodSpawnInterval srv), 500)])"
    using inv by (auto simp: timerInv_def split: if_splits)
  have fresh: "nextHandle srv \<notin> fst ` set (timers srv)"
    using inv timerInv_held [OF inv] by (auto simp: timerInv_def)
  have c: "timers srv' =
             (if connectedPlayers (gameState srv') = 0 then []
              else if connectedPlayers (gameState srv') = 1 then [(nextHandle srv, 2000)]
              else [(nextHandle srv, 500)])"
    if "step (Connection sid) srv = Some (srv', out')
        \<or> step (Disconnect sid) srv = Some (srv', out')"
    for sid srv' out'
  proof -
    from that consider "srv' = fst (connection sid srv)" | "srv' = fst (disconnect sid srv)"
      by (auto split: if_splits)
    then show ?thesis
      using connection_timers(2) [OF inv, of sid] disconnect_timers(2) [OF inv, of sid]
      by cases simp_all
  qed
  from a b fresh c show ?thesis by blast
qed

theorem spawn_timer_policy_witness:
  "run [Connection ''a'', Connection ''b''] (initialServer sampleFoodRandom) \<noteq> None
   \<and> connectedPlayers (gameState (fst (the
        (run [Connection ''a'', Connection ''b''] (initialServer sampleFoodRandom))))) = 2
   \<and> timers (fst (the (run [Connection ''a'', Connection ''b''] (initialServer sampleFoodRandom))))
       = [(1, 500)]
   \<and> timers (fst (the (step (Disconnect ''b'')
        (fst (the (run [Connection ''a'', Connection ''b''] (initialServer sampleFoodRandom)))))))
       = [(2, 2000)]"
proof -
  have r: "run [Connection ''a'', Connection ''b''] (initialServer sampleFoodRandom) =
    Some (fst (the (run [Connection ''a'', Connection ''b''] (initialServer sampleFoodRandom))),
          snd (the (run [Connection ''a'', Connection ''b''] (initialServer sampleFoodRandom))))"
    by (simp add: run_eval)
  show ?thesis
    using spawn_timer_policy [OF r] by (simp add: run_eval)
qed

subsection \<open>The counter of connected players\<close>







subsection \<open>Which notifications a lone player gets\<close>

text \<open>
  C5, as amended. Whenever \<open>connectedPlayers\<close> is at most 1, the \<open>playerJoin\<close>,
  \<open>playerUpdate\<close> and \<open>playerRespawn\<close> handlers emit nothing (no \<open>playerJoined\<close>,
  \<open>playerMoved\<close>, \<open>playerRespawned\<close>) while still updating the canonical state:
  \<open>playerJoin\<close> stores the new snapshot under the socket id, \<open>playerUpdate\<close> and
  \<open>playerRespawn\<close> overwrite the fields of the stored snapshot and leave the rest of the
  state as it is (and do nothing at all for a socket that has not joined). The other
  notifications have gates of their own. The interval's callback appends the new food
  whenever the cap allows and emits \<open>foodSpawned\<close> to all sockets exactly when it did so
  and \<open>connectedPlayers\<close> is above 0. \<open>foodEaten\<close> removes a food and emits
  \<open>foodRemoved\<close> whenever the id is found, and \<open>playerEaten\<close> marks the player dead and
  emits \<open>playerDied\<close> whenever the player is registered, whatever \<open>connectedPlayers\<close> is.
  The disconnection of a registered player removes it from the registry and emits
  \<open>playerLeft\<close> exactly when \<open>connectedPlayers\<close> is still above 0 after the decrement.
\<close>

theorem notification_gates:
  "(connectedPlayers gs \<le> 1 \<longrightarrow>
      snd (playerJoin sid jd gs) = []
      \<and> players (fst (playerJoin sid jd gs)) sid =
          Some \<lparr> ps_id = sid, ps_name = jd_name jd, ps_x = jd_x jd, ps_y = jd_y jd,
                 ps_radius = jd_radius jd, ps_color = jd_color jd,
                 ps_eyeColor = jd_eyeColor jd, ps_pupilColor = jd_pupilColor jd,
                 ps_angle = jd_angle jd, ps_score = 0, ps_sizeLevel = 1, ps_isAlive = True \<rparr>
      \<and> (players gs sid = None \<longrightarrow>
            playerUpdate sid ud gs = (gs, []) \<and> playerRespawn sid rd gs = (gs, []))
      \<and> (\<forall>pl. players gs sid = Some pl \<longrightarrow>
            playerUpdate sid ud gs =
              (gs\<lparr>players := (players gs)(sid \<mapsto>
                    pl\<lparr>ps_x := ud_x ud, ps_y := ud_y ud, ps_radius := ud_radius ud,
                       ps_angle := ud_angle ud, ps_score := ud_score ud,
                       ps_sizeLevel := ud_sizeLevel ud, ps_isAlive := ud_isAlive ud\<rparr>)\<rparr>, [])
            \<and> playerRespawn sid rd gs =
              (gs\<lparr>players := (players gs)(sid \<mapsto>
                    pl\<lparr>ps_x := rd_x rd, ps_y := rd_y rd, ps_radius := rd_radius rd,
                       ps_score := rd_score rd, ps_sizeLevel := rd_sizeLevel rd,
                       ps_isAlive := True\<rparr>)\<rparr>, [])))
   \<and> spawnTick r gs =
       (if length (foods gs) < maxFoodItems gs
        then (gs\<lparr>foods := foods gs @
                [\<lparr> food_id = fr_id r, food_x = fr_x r * worldWidth gs,
                   food_y = fr_y r * worldHeight gs, food_radius = 5, food_value = 1,
                   food_color = getRandomFoodColor (fr_color r) \<rparr>]\<rparr>,
              if 0 < connectedPlayers gs
              then [IoEmit (FoodSpawned
                     \<lparr> food_id = fr_id r, food_x = fr_x r * worldWidth gs,
                       food_y = fr_y r * worldHeight gs, food_radius = 5, food_value = 1,
                       food_color = getRandomFoodColor (fr_color r) \<rparr>)]
              else [])
        else (gs, []))
   \<and> (fid \<in> food_id ` set (foods gs) \<longrightarrow>
        snd (foodEaten fid gs) = [IoEmit (FoodRemoved fid)]
        \<and> length (foods (fst (foodEaten fid gs))) + 1 = length (foods gs))
   \<and> (\<forall>pl. players gs pid = Some pl \<longrightarrow>
        playerEaten pid gs =
          (gs\<lparr>players := (players gs)(pid \<mapsto> pl\<lparr>ps_isAlive := False\<rparr>)\<rparr>,
           [IoEmit (PlayerDied pid)]))
   \<and> (players (gameState srv) sid \<noteq> None \<longrightarrow>
        snd (disconnect sid srv) =
          (if 1 < connectedPlayers (gameState srv) then [IoEmit (PlayerLeft sid)] else [])
        \<and> players (gameState (fst (disconnect sid srv))) sid = None)"
proof -
  have a: "snd (playerJoin sid jd gs) = []
      \<and> players (fst (playerJoin sid jd gs)) sid =
          Some \<lparr> ps_id = sid, ps_name = jd_name jd, ps_x = jd_x jd, ps_y = jd_y jd,
                 ps_radius = jd_radius jd, ps_color = jd_color jd,
                 ps_eyeColor = jd_eyeColor jd, ps_pupilColor = jd_pupilColor jd,
                 ps_angle = jd_angle jd, ps_score = 0, ps_sizeLevel = 1, ps_isAlive = True \<rparr>"
    if "connectedPlayers gs \<le> 1"
    using that by (simp add: playerJoin_def Let_def)
  have a0: "playerUpdate sid ud gs = (gs, []) \<and> playerRespawn sid rd gs = (gs, [])"
    if "players gs sid = None"
    using that by (simp add: playerUpdate_def playerRespawn_def)
  have a1: "playerUpdate sid ud gs =
              (gs\<lparr>players := (players gs)(sid \<mapsto>
                    pl\<lparr>ps_x := ud_x ud, ps_y := ud_y ud, ps_radius := ud_radius ud,
                       ps_angle := ud_angle ud, ps_score := ud_score ud,
                       ps_sizeLevel := ud_sizeLevel ud, ps_isAlive := ud_isAlive ud\<rparr>)\<rparr>, [])
            \<and> playerRespawn sid rd gs =
              (gs\<lparr>players := (players gs)(sid \<mapsto>
                    pl\<lparr>ps_x := rd_x rd, ps_y := rd_y rd, ps_radius := rd_radius rd,
                       ps_score := rd_score rd, ps_sizeLevel := rd_sizeLevel rd,
                       ps_isAlive := True\<rparr>)\<rparr>, [])"
    if "connectedPlayers gs \<le> 1" and "players gs sid = Some pl" for pl
    using that by (simp add: playerUpdate_def playerRespawn_def Let_def)
  have b: "spawnTick r gs =
       (if length (foods gs) < maxFoodItems gs
        then (gs\<lparr>foods := foods gs @
                [\<lparr> food_id = fr_id r, food_x = fr_x r * worldWidth gs,
                   food_y = fr_y r * worldHeight gs, food_radius = 5, food_value = 1,
                   food_color = getRandomFoodColor (fr_color r) \<rparr>]\<rparr>,
              if 0 < connectedPlayers gs
              then [IoEmit (FoodSpawned
                     \<lparr> food_id = fr_id r, food_x = fr_x r * worldWidth gs,
                       food_y = fr_y r * worldHeight gs, food_radius = 5, food_value = 1,
                       food_color = getRandomFoodColor (fr_color r) \<rparr>)]
              else [])
        else (gs, []))"
    by (simp add: spawnTick_def generateFood_def Let_def)
  have d: "snd (foodEaten fid gs) = [IoEmit (FoodRemoved fid)]
        \<and> length (foods (fst (foodEaten fid gs))) + 1 = length (foods gs)"
    if "fid \<in> food_id ` set (foods gs)"
  proof -
    from that have "findIndex (\<lambda>f. food_id f = fid) (foods gs) \<noteq> None"
      by (auto simp: findIndex_None)
    then obtain i where i: "findIndex (\<lambda>f. food_id f = fid) (foods gs) = Some i" by auto
    from findIndex_Some [OF i] have "i < length (foods gs)" by simp
    then have "length (splice1 i (foods gs)) + 1 = length (foods gs)"
      by (simp add: length_splice1)
    with i show ?thesis by (simp add: foodEaten_def)
  qed
  have e: "playerEaten pid gs =
          (gs\<lparr>players := (players gs)(pid \<mapsto> pl\<lparr>ps_isAlive := False\<rparr>)\<rparr>,
           [IoEmit (PlayerDied pid)])"
    if "players gs pid = Some pl" for pl
    using that by (simp add: playerEaten_def)
  have f: "snd (disconnect sid srv) =
          (if 1 < connectedPlayers (gameState srv) then [IoEmit (PlayerLeft sid)] else [])
        \<and> players (gameState (fst (disconnect sid srv))) sid = None"
    if "players (gameState srv) sid \<noteq> None"
    using that by (auto simp: disconnect_def Let_def startFoodSpawning_fields)
  from a a0 a1 b d e f show ?thesis by blast
qed

theorem notification_gates_witness:
  "connectedPlayers (gameState loneServer) \<le> 1
   \<and> length (foods (gameState loneServer)) < maxFoodItems (gameState loneServer)
   \<and> ''f'' \<in> food_id ` set (foods (gameState loneServer))
   \<and> players (gameState loneServer) ''a'' \<noteq> None
   \<and> players (gameState loneServer) ''b'' = None
   \<and> snd (playerUpdate ''a'' sampleUpdateData (gameState loneServer)) = []
   \<and> map_option ps_x
        (players (fst (playerUpdate ''a'' sampleUpdateData (gameState loneServer))) ''a'')
       = Some 120
   \<and> snd (playerRespawn ''a'' sampleRespawnData (gameState loneServer)) = []
   \<and> map_option ps_x
        (players (fst (playerRespawn ''a'' sampleRespawnData (gameState loneServer))) ''a'')
       = Some 300
   \<and> playerUpdate ''b'' sampleUpdateData (gameState loneServer) = (gameState loneServer, [])
   \<and> length (foods (fst (spawnTick (sampleFoodRandom 2) (gameState loneServer)))) = 3
   \<and> snd (foodEaten ''f'' (gameState loneServer)) = [IoEmit (FoodRemoved ''f'')]
   \<and> snd (playerEaten ''a'' (gameState loneServer)) = [IoEmit (PlayerDied ''a'')]
   \<and> map_option ps_isAlive (players (fst (playerEaten ''a'' (gameState loneServer))) ''a'')
       = Some False
   \<and> snd (disconnect ''a'' loneServer) = []
   \<and> players (gameState (fst (disconnect ''a'' loneServer))) ''a'' = None"
proof -
  have facts: "connectedPlayers (gameState loneServer) \<le> 1
      \<and> length (foods (gameState loneServer)) < maxFoodItems (gameState loneServer)
      \<and> ''f'' \<in> food_id ` set (foods (gameState loneServer))
      \<and> players (gameState loneServer) ''a'' \<noteq> None
      \<and> players (gameState loneServer) ''b'' = None
      \<and> length (foods (gameState loneServer)) = 2"
    by (simp add: loneServer_def twoFoods_def playerJoin_def generateFood_def
        initialGameState_def sampleFoodRandom_def sampleJoinData_def truthy_def Let_def)
  then obtain pl where pl: "players (gameState loneServer) ''a'' = Some pl" by auto
  from notification_gates [of "gameState loneServer" "''a''" sampleJoinData sampleUpdateData
      sampleRespawnData "sampleFoodRandom 2" "''f''" "''a''" loneServer]
    notification_gates [of "gameState loneServer" "''b''" sampleJoinData sampleUpdateData
      sampleRespawnData "sampleFoodRandom 2" "''f''" "''a''" loneServer]
    facts pl
  show ?thesis
    by (simp add: sampleUpdateData_def sampleRespawnData_def)
qed

text \<open>
  The claim as stated fails with a single connection joined: \<open>connectedPlayers\<close> is 1,
  the 2000 ms interval fires, and the new food is emitted as \<open>foodSpawned\<close> to all
  sockets.
\<close>

theorem lone_player_gets_foodSpawned:
  "connectedPlayers (gameState (fst (the
      (run [Connection ''a'', PlayerJoin ''a'' sampleJoinData]
         (initialServer sampleFoodRandom))))) = 1
   \<and> snd (the (step (SpawnTick 0 (sampleFoodRandom 50)) (fst (the
      (run [Connection ''a'', PlayerJoin ''a'' sampleJoinData]
         (initialServer sampleFoodRandom))))))
     = [IoEmit (FoodSpawned
         \<lparr> food_id = fr_id (sampleFoodRandom 50), food_x = 1920, food_y = 1080,
           food_radius = 5, food_value = 1, food_color = ''#AAFFAA'' \<rparr>)]"
  by (simp add: run_eval sampleFoodRandom_def getRandomFoodColor_def)

end
